(* ===== verification/Prelude.thy ===== *)
theory Prelude
  imports Main "HOL-Library.Multiset" "HOL-Library.List_Lexorder" "HOL-Library.Char_ord"
    "HOL-Library.Product_Lexorder"
begin

text \<open>
  Shared vocabulary of the development: the names of the model's basic types, the
  collections of simplification rules the component theories fill, and generic facts on
  lists that several components use (first-occurrence deduplication, which is the key order
  of a Python dict built by insertion, and sortedness after deduplication).
\<close>

section \<open>Names of the model's types\<close>

type_synonym path = string
  \<comment> \<open>a file system path, as the command line passes it\<close>
type_synonym emu = nat
  \<comment> \<open>English Metric Units, python-docx's length unit (914400 per inch)\<close>

named_theorems dict_simps "equations of the Python dict model"
named_theorems doc_simps "equations of the document model"

section \<open>First-occurrence deduplication\<close>

text \<open>
  \<open>remdups\<close> of the library keeps the last occurrence of each element; a Python dict
  keeps its keys in the order of their first insertion. \<open>first_occ\<close> is that order.
\<close>

fun first_occ :: "'a list \<Rightarrow> 'a list" where
  "first_occ [] = []"
| "first_occ (x # xs) = x # first_occ (filter (\<lambda>y. y \<noteq> x) xs)"

lemma set_first_occ [simp]: "set (first_occ xs) = set xs"
  by (induction xs rule: first_occ.induct) auto

lemma distinct_first_occ [simp]: "distinct (first_occ xs)"
  by (induction xs rule: first_occ.induct) auto

lemma first_occ_filter: "first_occ (filter P xs) = filter P (first_occ xs)"
proof (induction xs arbitrary: P rule: first_occ.induct)
  case 1
  then show ?case by simp
next
  case (2 x xs)
  show ?case
  proof (cases "P x")
    case True
    then show ?thesis using "2.IH" by (simp add: filter_filter conj_commute)
  next
    case False
    then have "filter P xs = filter (\<lambda>y. P y \<and> y \<noteq> x) xs"
      by (auto intro: filter_cong)
    with False show ?thesis using "2.IH" [of P] by (simp add: filter_filter conj_commute)
  qed
qed

lemma first_occ_snoc:
  "first_occ (xs @ [x]) = (if x \<in> set xs then first_occ xs else first_occ xs @ [x])"
proof (induction xs rule: first_occ.induct)
  case 1
  then show ?case by simp
next
  case (2 y ys)
  then show ?case by auto
qed

lemma first_occ_distinct [simp]: "distinct xs \<Longrightarrow> first_occ xs = xs"
  by (induction xs rule: first_occ.induct) (auto intro: filter_True)

lemma sorted_first_occ: "sorted xs \<Longrightarrow> sorted_wrt (<) (first_occ xs)"
proof (induction xs rule: first_occ.induct)
  case 1
  then show ?case by simp
next
  case (2 x xs)
  then have "sorted (filter (\<lambda>y. y \<noteq> x) xs)" by (simp add: sorted_wrt_filter)
  with "2.IH" have "sorted_wrt (<) (first_occ (filter (\<lambda>y. y \<noteq> x) xs))" .
  moreover from "2.prems" have "\<forall>y\<in>set (filter (\<lambda>y. y \<noteq> x) xs). x < y"
    by (auto simp: order.strict_iff_order)
  ultimately show ?case by simp
qed

lemma first_occ_sorted: "sorted xs \<Longrightarrow> first_occ xs = sorted_list_of_set (set xs)"
  by (rule sorted_distinct_set_unique)
     (simp_all add: strict_sorted_imp_sorted [OF sorted_first_occ])

section \<open>Sortedness through projections\<close>

lemma sorted_map_mono:
  assumes "sorted (map f xs)"
    and "\<And>a b. a \<in> set xs \<Longrightarrow> b \<in> set xs \<Longrightarrow> f a \<le> f b \<Longrightarrow> g a \<le> g b"
  shows "sorted (map g xs)"
  using assms by (induction xs) auto

lemma map_case_prod_fst: "map (\<lambda>(a, b). f a) xs = map f (map fst xs)"
  by (induction xs) auto

lemma sorted_map_filter: "sorted (map f xs) \<Longrightarrow> sorted (map f (filter P xs))"
  by (induction xs) auto

end
