(* ===== verification/PyDict.thy ===== *)
theory PyDict
  imports Prelude
begin

text \<open>
  Python's \<open>dict\<close> and \<open>collections.defaultdict\<close>, as \<open>fetch_data\<close> and
  \<open>create_report\<close> in \<open>src/gen_report.py\<close> use them. A dict is an association list
  whose order is the insertion order of its keys (Python 3.7+ guarantees it, and
  \<open>data.items()\<close> and \<open>states.items()\<close> iterate in it). Assigning to an existing key
  keeps its position; a new key goes to the end. \<open>d[k]\<close> on a \<open>defaultdict\<close> whose
  key is missing inserts the factory's value first. The values of the nested dicts of the
  program are created fresh by the factories and never shared, so a value semantics
  (the modified inner dict is put back in place) is faithful to the in-place mutation.
\<close>

type_synonym ('k, 'v) pydict = "('k \<times> 'v) list"

section \<open>Operations\<close>

text \<open>\<open>d.get(k, default)\<close>: the value of \<open>k\<close>, or \<open>default\<close>; it never inserts.\<close>

definition dict_get :: "('k, 'v) pydict \<Rightarrow> 'k \<Rightarrow> 'v \<Rightarrow> 'v" where
  "dict_get d k dflt = (case map_of d k of None \<Rightarrow> dflt | Some v \<Rightarrow> v)"

text \<open>\<open>d[k] = v\<close>: overwrite in place, or append a new entry.\<close>

fun dict_set :: "('k, 'v) pydict \<Rightarrow> 'k \<Rightarrow> 'v \<Rightarrow> ('k, 'v) pydict" where
  "dict_set [] k v = [(k, v)]"
| "dict_set ((k', v') # d) k v =
     (if k' = k then (k', v) # d else (k', v') # dict_set d k v)"

text \<open>
  \<open>f(d[k])\<close> for a \<open>defaultdict\<close> whose factory gives \<open>dflt\<close>: the entry of \<open>k\<close>
  is created with \<open>dflt\<close> at the end when missing, then modified in place by \<open>f\<close>.
\<close>

fun dd_modify :: "'v \<Rightarrow> ('v \<Rightarrow> 'v) \<Rightarrow> ('k, 'v) pydict \<Rightarrow> 'k \<Rightarrow> ('k, 'v) pydict" where
  "dd_modify dflt f [] k = [(k, f dflt)]"
| "dd_modify dflt f ((k', v') # d) k =
     (if k' = k then (k', f v') # d else (k', v') # dd_modify dflt f d k)"

text \<open>The dict's invariant: no key twice.\<close>

definition dict_wf :: "('k, 'v) pydict \<Rightarrow> bool" where
  "dict_wf d \<longleftrightarrow> distinct (map fst d)"

text \<open>
  A dict built by grouping: the keys \<open>f x\<close> in the order they first occur, each with
  \<open>g\<close> of the elements that have that key, in their order.
\<close>

definition group_with :: "('a list \<Rightarrow> 'v) \<Rightarrow> ('a \<Rightarrow> 'k) \<Rightarrow> 'a list \<Rightarrow> ('k, 'v) pydict" where
  "group_with g f xs = map (\<lambda>k. (k, g (filter (\<lambda>x. f x = k) xs))) (first_occ (map f xs))"

section \<open>Lemmas\<close>

lemma dict_set_as_modify: "dict_set d k v = dd_modify dflt (\<lambda>_. v) d k"
  by (induction d) auto

lemma map_of_dd_modify [dict_simps]:
  "map_of (dd_modify dflt f d k) =
     (map_of d)(k \<mapsto> f (case map_of d k of None \<Rightarrow> dflt | Some v \<Rightarrow> v))"
  by (induction d) (auto simp: fun_eq_iff)

lemma map_of_dict_set [dict_simps]: "map_of (dict_set d k v) = (map_of d)(k \<mapsto> v)"
  by (simp add: dict_set_as_modify [of _ _ _ undefined] map_of_dd_modify)

lemma keys_dd_modify [dict_simps]:
  "map fst (dd_modify dflt f d k) = (if k \<in> set (map fst d) then map fst d else map fst d @ [k])"
  by (induction d) force+

lemma keys_dict_set [dict_simps]:
  "map fst (dict_set d k v) = (if k \<in> set (map fst d) then map fst d else map fst d @ [k])"
  by (simp add: dict_set_as_modify [of _ _ _ undefined] keys_dd_modify)

lemma dict_wf_dd_modify [dict_simps]: "dict_wf d \<Longrightarrow> dict_wf (dd_modify dflt f d k)"
  by (auto simp: dict_wf_def keys_dd_modify)

lemma dd_modify_entries:
  "(k', v') \<in> set (dd_modify dflt f d k) \<Longrightarrow>
     (k', v') \<in> set d \<or> (k' = k \<and> v' = f (case map_of d k of None \<Rightarrow> dflt | Some v \<Rightarrow> v))"
  by (induction d) (auto split: if_splits)

lemma dict_get_Some [dict_simps]: "map_of d k = Some v \<Longrightarrow> dict_get d k dflt = v"
  by (simp add: dict_get_def)

lemma dict_get_None [dict_simps]: "map_of d k = None \<Longrightarrow> dict_get d k dflt = dflt"
  by (simp add: dict_get_def)

lemma dict_wf_Nil [simp]: "dict_wf []"
  by (simp add: dict_wf_def)

lemma dict_wf_dict_set [dict_simps]: "dict_wf d \<Longrightarrow> dict_wf (dict_set d k v)"
  by (simp add: dict_set_as_modify [of _ _ _ undefined] dict_wf_dd_modify)

text \<open>A property of every value survives a defaultdict update that keeps it.\<close>

lemma dd_modify_all:
  assumes "list_all (\<lambda>(k, v). Q v) d" and "Q (f dflt)" and "\<And>v. Q v \<Longrightarrow> Q (f v)"
  shows "list_all (\<lambda>(k, v). Q v) (dd_modify dflt f d k)"
  using assms by (induction d) auto

lemma dd_modify_nonempty [simp]: "dd_modify dflt f d k \<noteq> []"
  by (cases d) (auto split: if_splits)

lemma dd_modify_map_in:
  "k \<in> set ks \<Longrightarrow> distinct ks \<Longrightarrow>
   dd_modify dflt h (map (\<lambda>k. (k, G k)) ks) k = map (\<lambda>k'. (k', if k' = k then h (G k') else G k')) ks"
  by (induction ks) auto

lemma dd_modify_map_notin:
  "k \<notin> set ks \<Longrightarrow> dd_modify dflt h (map (\<lambda>k. (k, G k)) ks) k = map (\<lambda>k. (k, G k)) ks @ [(k, h dflt)]"
  by (induction ks) auto

lemma group_with_snoc:
  assumes hom: "\<And>xs. g (xs @ [x]) = h (g xs)"
  shows "group_with g f (xs @ [x]) = dd_modify (g []) h (group_with g f xs) (f x)"
proof (cases "f x \<in> set (map f xs)")
  case True
  then have "first_occ (map f (xs @ [x])) = first_occ (map f xs)"
    by (simp add: first_occ_snoc)
  then show ?thesis using True
    by (auto simp: group_with_def dd_modify_map_in hom intro!: map_cong)
next
  case False
  then have "first_occ (map f (xs @ [x])) = first_occ (map f xs) @ [f x]"
    by (simp add: first_occ_snoc)
  moreover have "filter (\<lambda>y. f y = f x) xs = []"
    using False by (fastforce simp: filter_empty_conv image_iff)
  ultimately show ?thesis using False hom [of "[]"]
    by (auto simp: group_with_def dd_modify_map_notin intro!: map_cong)
qed

lemma group_with_Nil [simp]: "group_with g f [] = []"
  by (simp add: group_with_def)

end
