(* ===== verification/PyStr.thy ===== *)
theory PyStr
  imports Prelude
begin

text \<open>
  The Python values the report handles and their text: the values psycopg2 returns for the
  \<open>yield_value\<close> column (\<open>None\<close> for SQL NULL, \<open>int\<close>, \<open>decimal.Decimal\<close> for
  a \<open>numeric\<close> column, finite or special) and the empty string that
  \<open>.get(method, "")\<close> supplies;
  Python's \<open>str()\<close> on them (\<open>Decimal.__str__\<close> is CPython's \<open>to_sci_string\<close>);
  \<open>str.upper\<close> on ASCII text; \<open>datetime.strftime('%d-%m-%Y')\<close>. Binary floats
  (a \<open>real\<close> column) are not modelled: their \<open>repr\<close> is the shortest round-tripping
  decimal, which needs a model of IEEE arithmetic.
  Strings are byte strings (\<open>char\<close> is a byte): non-ASCII text is its UTF-8 encoding.
\<close>

section \<open>Values\<close>

text \<open>
  The special Decimals: infinity, and the quiet and signalling NaNs with their payload digits.
  A \<open>numeric\<close> column holds \<open>NaN\<close> and, from PostgreSQL 14, \<open>Infinity\<close> and
  \<open>-Infinity\<close>; psycopg2 returns them as \<open>Decimal('NaN')\<close> and \<open>Decimal('Infinity')\<close>.
\<close>

datatype dec_special = DInfinity | DNaN string | DsNaN string

datatype pyval =
    PyNone
  | PyInt int
  | PyDecimal bool string int
    \<comment> \<open>sign (True: negative), coefficient digits \<open>_int\<close>, exponent \<open>_exp\<close>\<close>
  | PyDecimalSpecial bool dec_special
  | PyStr string

section \<open>Integers as text\<close>

definition digit_char :: "nat \<Rightarrow> char" where
  "digit_char d = char_of (48 + d)"

fun nat_str :: "nat \<Rightarrow> string" where
  "nat_str n = (if n < 10 then [digit_char n] else nat_str (n div 10) @ [digit_char (n mod 10)])"

declare nat_str.simps [simp del]

definition int_str :: "int \<Rightarrow> string" where
  "int_str i = (if i < 0 then CHR ''-'' # nat_str (nat (- i)) else nat_str (nat i))"

text \<open>\<open>"%+d" % i\<close>: the sign is always written.\<close>

definition signed_str :: "int \<Rightarrow> string" where
  "signed_str i = (if i < 0 then CHR ''-'' # nat_str (nat (- i)) else CHR ''+'' # nat_str (nat i))"

text \<open>The ten decimal digit characters.\<close>

definition dec_digits :: "char set" where
  "dec_digits = set ''0123456789''"

text \<open>The values whose \<open>str()\<close> is a numeral: ints, and finite Decimals with a digit coefficient.\<close>

definition numeral_val :: "pyval \<Rightarrow> bool" where
  "numeral_val v = (case v of PyInt _ \<Rightarrow> True | PyDecimal _ c _ \<Rightarrow> set c \<subseteq> dec_digits | _ \<Rightarrow> False)"

section \<open>Decimal.__str__\<close>

text \<open>
  CPython's \<open>Decimal.__str__\<close> (\<open>_pydecimal.py\<close>, \<open>eng=False\<close>, capitals on):
  \<^verbatim>\<open>
  leftdigits = self._exp + len(self._int)
  if self._exp <= 0 and leftdigits > -6: dotplace = leftdigits
  else: dotplace = 1
  if dotplace <= 0: intpart = '0'; fracpart = '.' + '0'*(-dotplace) + self._int
  elif dotplace >= len(self._int):
      intpart = self._int+'0'*(dotplace-len(self._int)); fracpart = ''
  else: intpart = self._int[:dotplace]; fracpart = '.' + self._int[dotplace:]
  if leftdigits == dotplace: exp = ''
  else: exp = 'E' + "%+d" % (leftdigits-dotplace)
  return sign + intpart + fracpart + exp
  \<close>
\<close>

definition decimal_str :: "bool \<Rightarrow> string \<Rightarrow> int \<Rightarrow> string" where
  "decimal_str neg coeff e =
     (let n = int (length coeff);
          leftdigits = e + n;
          dotplace = (if e \<le> 0 \<and> leftdigits > -6 then leftdigits else 1);
          intpart = (if dotplace \<le> 0 then ''0''
                     else if dotplace \<ge> n then coeff @ replicate (nat (dotplace - n)) (CHR ''0'')
                     else take (nat dotplace) coeff);
          fracpart = (if dotplace \<le> 0 then CHR ''.'' # replicate (nat (- dotplace)) (CHR ''0'') @ coeff
                      else if dotplace \<ge> n then ''''
                      else CHR ''.'' # drop (nat dotplace) coeff);
          expo = (if leftdigits = dotplace then '''' else CHR ''E'' # signed_str (leftdigits - dotplace))
      in (if neg then ''-'' else '''') @ intpart @ fracpart @ expo)"

text \<open>
  \<^verbatim>\<open>if self._is_special:
      if self._exp == 'F': return sign + 'Infinity'
      elif self._exp == 'n': return sign + 'NaN' + self._int
      else: return sign + 'sNaN' + self._int\<close>
\<close>

definition special_str :: "bool \<Rightarrow> dec_special \<Rightarrow> string" where
  "special_str neg k =
     (if neg then ''-'' else '''') @
     (case k of DInfinity \<Rightarrow> ''Infinity'' | DNaN payload \<Rightarrow> ''NaN'' @ payload | DsNaN payload \<Rightarrow> ''sNaN'' @ payload)"

text \<open>\<open>str(v)\<close>.\<close>

fun py_str :: "pyval \<Rightarrow> string" where
  "py_str PyNone = ''None''"
| "py_str (PyInt i) = int_str i"
| "py_str (PyDecimal neg coeff e) = decimal_str neg coeff e"
| "py_str (PyDecimalSpecial neg k) = special_str neg k"
| "py_str (PyStr s) = s"

section \<open>str.upper on ASCII\<close>

definition upper_char :: "char \<Rightarrow> char" where
  "upper_char c = (if CHR ''a'' \<le> c \<and> c \<le> CHR ''z'' then char_of (of_char c - 32::nat) else c)"

definition py_upper :: "string \<Rightarrow> string" where
  "py_upper s = map upper_char s"

section \<open>strftime('%d-%m-%Y')\<close>

record date =
  dt_year :: nat
  dt_month :: nat
  dt_day :: nat

definition pad_nat :: "nat \<Rightarrow> nat \<Rightarrow> string" where
  "pad_nat w n = (let s = nat_str n in replicate (w - length s) (CHR ''0'') @ s)"

definition strftime_dmy :: "date \<Rightarrow> string" where
  "strftime_dmy d = pad_nat 2 (dt_day d) @ ''-'' @ pad_nat 2 (dt_month d) @ ''-'' @ pad_nat 4 (dt_year d)"

section \<open>Reading the date back\<close>

text \<open>
  What a reader of the footer does with \<open>DD-MM-YYYY\<close>: three digit groups separated by
  dashes. It states what the format promises, and the round trip below shows that the
  footer's date determines the date.
\<close>

definition char_digit :: "char \<Rightarrow> nat option" where
  "char_digit c = (if CHR ''0'' \<le> c \<and> c \<le> CHR ''9'' then Some (of_char c - 48) else None)"

fun digits_val_acc :: "nat \<Rightarrow> string \<Rightarrow> nat option" where
  "digits_val_acc acc [] = Some acc"
| "digits_val_acc acc (c # cs) =
     (case char_digit c of None \<Rightarrow> None | Some d \<Rightarrow> digits_val_acc (10 * acc + d) cs)"

definition digits_val :: "string \<Rightarrow> nat option" where
  "digits_val s = (if s = [] then None else digits_val_acc 0 s)"

definition read_dmy :: "string \<Rightarrow> (nat \<times> nat \<times> nat) option" where
  "read_dmy s =
     (if length s = 10 \<and> s ! 2 = CHR ''-'' \<and> s ! 5 = CHR ''-'' then
        (case (digits_val (take 2 s), digits_val (take 2 (drop 3 s)), digits_val (drop 6 s)) of
           (Some d, Some m, Some y) \<Rightarrow> Some (d, m, y)
         | _ \<Rightarrow> None)
      else None)"

section \<open>Digits\<close>

lemma char_digit_digit_char [simp]: "d < 10 \<Longrightarrow> char_digit (digit_char d) = Some d"
proof -
  assume d: "d < 10"
  then have "of_char (digit_char d) = 48 + d" by (simp add: digit_char_def of_char_of)
  with d show ?thesis by (simp add: char_digit_def less_eq_char_def)
qed

lemma digits_val_acc_append:
  "digits_val_acc acc (xs @ ys) = (case digits_val_acc acc xs of None \<Rightarrow> None | Some a \<Rightarrow> digits_val_acc a ys)"
  by (induction xs arbitrary: acc) (auto split: option.splits)

lemma digits_val_acc_nat_str: "digits_val_acc acc (nat_str n) = Some (acc * 10 ^ length (nat_str n) + n)"
proof (induction n arbitrary: acc rule: nat_str.induct)
  case (1 n)
  show ?case
  proof (cases "n < 10")
    case True
    then show ?thesis by (simp add: nat_str.simps [of n])
  next
    case False
    then have "nat_str n = nat_str (n div 10) @ [digit_char (n mod 10)]" by (simp add: nat_str.simps [of n])
    with False "1.IH" show ?thesis 
      by (simp add: digits_val_acc_append algebra_simps)
  qed
qed

lemma nat_str_nonempty [simp]: "nat_str n \<noteq> []"
  by (subst nat_str.simps) simp

lemma digits_val_nat_str: "digits_val (nat_str n) = Some n"
  by (simp add: digits_val_def digits_val_acc_nat_str)

lemma length_nat_str_le: "n < 10 ^ k \<Longrightarrow> 0 < k \<Longrightarrow> length (nat_str n) \<le> k"
proof (induction n arbitrary: k rule: nat_str.induct)
  case (1 n)
  show ?case
  proof (cases "n < 10")
    case True
    with "1.prems" show ?thesis by (simp add: nat_str.simps [of n])
  next
    case False
    have "k \<noteq> 0" and "k \<noteq> 1" using False "1.prems" by auto
    then obtain j where k: "k = Suc j" and j: "0 < j" by (cases k) auto
    with "1.prems" have "n div 10 < 10 ^ j" by (simp add: less_mult_imp_div_less mult.commute)
    with False "1.IH" j have "length (nat_str (n div 10)) \<le> j" by simp
    with False k show ?thesis by (simp add: nat_str.simps [of n])
  qed
qed

lemma length_nat_str_ge: "10 ^ k \<le> n \<Longrightarrow> k < length (nat_str n)"
proof (induction n arbitrary: k rule: nat_str.induct)
  case (1 n)
  show ?case
  proof (cases "n < 10")
    case True
    with "1.prems" have "(10::nat) ^ k < 10 ^ 1" by simp
    then have "k = 0" using power_less_imp_less_exp [of "10::nat" k 1] by simp
    then show ?thesis by simp
  next
    case False
    show ?thesis
    proof (cases k)
      case 0
      then show ?thesis by simp
    next
      case (Suc j)
      with "1.prems" have "10 ^ j \<le> n div 10" by (simp add: div_le_mono le_div_geq mult.commute)
      with False "1.IH" have "j < length (nat_str (n div 10))" by simp
      with False Suc show ?thesis by (simp add: nat_str.simps [of n])
    qed
  qed
qed


lemma digits_val_acc_zeros: "digits_val_acc 0 (replicate k (CHR ''0'') @ s) = digits_val_acc 0 s"
proof (induction k)
  case 0
  then show ?case by simp
next
  case (Suc k)
  have "char_digit (CHR ''0'') = Some 0" by code_simp
  with Suc show ?case by simp
qed

lemma digits_val_pad_nat: "digits_val (pad_nat w n) = Some n"
  by (simp add: pad_nat_def Let_def digits_val_def digits_val_acc_zeros digits_val_acc_nat_str)

lemma length_pad_nat: "length (nat_str n) \<le> w \<Longrightarrow> length (pad_nat w n) = w"
  by (simp add: pad_nat_def Let_def)

lemma digit_chars: "list_all (\<lambda>d. digit_char d \<in> set ''0123456789'') [0..<10]"
  by code_simp

lemma digit_char_in: "d < 10 \<Longrightarrow> digit_char d \<in> dec_digits"
  using digit_chars by (simp add: list_all_iff dec_digits_def)

lemma zero_in_dec_digits: "CHR ''0'' \<in> dec_digits"
  by (simp add: dec_digits_def)

lemma set_nat_str: "set (nat_str n) \<subseteq> dec_digits"
proof (induction n rule: nat_str.induct)
  case (1 n)
  show ?case
  proof (cases "n < 10")
    case True
    then have "nat_str n = [digit_char n]" by (simp add: nat_str.simps [of n])
    then show ?thesis using True digit_char_in by simp
  next
    case False
    then have "nat_str n = nat_str (n div 10) @ [digit_char (n mod 10)]" by (simp add: nat_str.simps [of n])
    moreover have "set (nat_str (n div 10)) \<subseteq> dec_digits" using 1 False .
    ultimately show ?thesis using digit_char_in [of "n mod 10"] by simp
  qed
qed

lemma set_int_str: "set (int_str i) \<subseteq> insert CHR ''-'' dec_digits"
  using set_nat_str by (auto simp: int_str_def)

lemma set_signed_str: "set (signed_str i) \<subseteq> insert CHR ''+'' (insert CHR ''-'' dec_digits)"
  using set_nat_str by (auto simp: signed_str_def)

section \<open>The footer's date\<close>


section \<open>Decimal.__str__ on every branch\<close>

lemma decimal_str_exp0: "c \<noteq> [] \<Longrightarrow> decimal_str False c 0 = c"
  by (simp add: decimal_str_def Let_def)

lemma decimal_str_frac:
  assumes "e < 0" and "0 < e + int (length c)"
  shows "decimal_str False c e = take (nat (e + int (length c))) c @ CHR ''.'' # drop (nat (e + int (length c))) c"
  using assms by (simp add: decimal_str_def Let_def)

lemma decimal_str_small:
  assumes "e + int (length c) \<le> 0" and "-6 < e + int (length c)"
  shows "decimal_str False c e = ''0.'' @ replicate (nat (- (e + int (length c)))) (CHR ''0'') @ c"
  using assms by (simp add: decimal_str_def Let_def)

lemma decimal_str_sci:
  assumes "0 < e \<or> e + int (length c) \<le> -6" and "c \<noteq> []"
  shows "decimal_str False c e =
     take 1 c @ (if length c \<le> 1 then '''' else CHR ''.'' # drop 1 c) @
     CHR ''E'' # signed_str (e + int (length c) - 1)"
proof -
  from assms(2) have n: "1 \<le> int (length c)" by (cases c) auto
  with assms(1) show ?thesis by (auto simp add: decimal_str_def Let_def)
qed


section \<open>Numbers render as numerals\<close>

lemma py_str_numeric_chars:
  "set (py_str (PyInt i)) \<subseteq> insert CHR ''-'' dec_digits \<and>
   (set coeff \<subseteq> dec_digits \<longrightarrow>
      set (py_str (PyDecimal neg coeff e)) \<subseteq> dec_digits \<union> {CHR ''+'', CHR ''-'', CHR ''.'', CHR ''E''})"
proof (intro conjI impI)
  show "set (py_str (PyInt i)) \<subseteq> insert CHR ''-'' dec_digits" using set_int_str by simp
next
  assume c: "set coeff \<subseteq> dec_digits"
  have z: "x \<in> set (replicate k (CHR ''0'')) \<Longrightarrow> x \<in> dec_digits" for x k
    using zero_in_dec_digits by (auto simp: set_replicate_conv_if split: if_splits)
  have t: "x \<in> set (take k coeff) \<Longrightarrow> x \<in> dec_digits" "x \<in> set (drop k coeff) \<Longrightarrow> x \<in> dec_digits"
    for x k using subset_trans [OF set_take_subset c] subset_trans [OF set_drop_subset c] by blast+
  have c': "x \<in> set coeff \<Longrightarrow> x \<in> dec_digits" for x using c by blast
  have sg: "x \<in> set (signed_str i) \<Longrightarrow> x \<in> insert CHR ''+'' (insert CHR ''-'' dec_digits)" for x i
    using set_signed_str by blast
  show "set (py_str (PyDecimal neg coeff e)) \<subseteq> dec_digits \<union> {CHR ''+'', CHR ''-'', CHR ''.'', CHR ''E''}"
    unfolding py_str.simps decimal_str_def Let_def set_append
    using zero_in_dec_digits by (auto split: if_splits dest: z t c' sg)
qed

lemma py_str_numeral:
  assumes "numeral_val v"
  shows "set (py_str v) \<subseteq> dec_digits \<union> {CHR ''+'', CHR ''-'', CHR ''.'', CHR ''E''}"
proof (cases v)
  case (PyInt i)
  then show ?thesis using set_int_str [of i] by auto
next
  case (PyDecimal neg c e)
  then show ?thesis using py_str_numeric_chars [of 0 c neg e] assms by (simp add: numeral_val_def)
qed (use assms in \<open>simp_all add: numeral_val_def\<close>)

end
