(* ===== verification/Loader.thy ===== *)
theory Loader
  imports PyDict PyStr
begin

text \<open>
  The data loader, \<open>fetch_data\<close> of \<open>src/gen_report.py\<close> (lines 11--34): the
  connection configuration \<open>DB_CONFIG\<close>, the database's three tables and the one SQL
  query, the loop that pivots the result rows into the nested dict
  crop \<open>\<rightarrow>\<close> state \<open>\<rightarrow>\<close> year \<open>\<rightarrow>\<close> method \<open>\<rightarrow>\<close> value, and the opening and
  closing of the connection and cursor. The database server is a collaborator: the rows it
  returns are an input of the model (\<open>db_answer\<close>), and \<open>query_result\<close> states what
  the query's text asks of them (the rows of the inner join, in \<open>ORDER BY\<close> order).
  The order compares strings bytewise (PostgreSQL's \<open>C\<close> collation); under another
  collation only the sortedness corollaries change, not the order-preservation theorems.
\<close>

section \<open>Tables, rows and the query\<close>

record crop_rec =
  crop_id :: int
  crop_name :: string

record state_rec =
  state_id :: int
  state_name :: string

record yield_rec =
  cy_crop_id :: int
  cy_state_id :: int
  cy_year :: int
  cy_method :: string
  cy_yield_value :: pyval

record tables =
  t_crops :: "crop_rec list"
  t_states :: "state_rec list"
  t_yields :: "yield_rec list"

text \<open>A result row \<open>(crop, state, year, method, yield_val)\<close>, as the loop unpacks it.\<close>

type_synonym row = "string \<times> string \<times> int \<times> string \<times> pyval"
type_synonym key = "string \<times> string \<times> int \<times> string"

fun row_key :: "row \<Rightarrow> key" where
  "row_key (c, s, y, m, v) = (c, s, y, m)"

fun row_val :: "row \<Rightarrow> pyval" where
  "row_val (c, s, y, m, v) = v"

fun row_crop :: "row \<Rightarrow> string" where
  "row_crop (c, s, y, m, v) = c"

fun row_state :: "row \<Rightarrow> string" where
  "row_state (c, s, y, m, v) = s"

fun row_year :: "row \<Rightarrow> int" where
  "row_year (c, s, y, m, v) = y"

fun row_method :: "row \<Rightarrow> string" where
  "row_method (c, s, y, m, v) = m"

text \<open>
  \<^verbatim>\<open>SELECT c.crop_name, s.state_name, cy.year, cy.method, cy.yield_value
  FROM crop_yields cy JOIN crops c ON c.crop_id = cy.crop_id
  JOIN states s ON s.state_id = cy.state_id\<close>
\<close>

definition sql_join :: "tables \<Rightarrow> row list" where
  "sql_join t =
     [(crop_name c, state_name s, cy_year cy, cy_method cy, cy_yield_value cy).
        cy \<leftarrow> t_yields t, c \<leftarrow> t_crops t, crop_id c = cy_crop_id cy,
        s \<leftarrow> t_states t, state_id s = cy_state_id cy]"

text \<open>
  \<^verbatim>\<open>ORDER BY c.crop_name, s.state_name, cy.year, cy.method\<close>: the server returns the
  join's rows, each as often as the join has it, sorted by the four keys; rows with equal
  keys come in an order SQL leaves open, so this is a relation, not a function.
\<close>

definition query_result :: "tables \<Rightarrow> row list \<Rightarrow> bool" where
  "query_result t rows \<longleftrightarrow> mset rows = mset (sql_join t) \<and> sorted (map row_key rows)"

text \<open>One answer a server may give (a stable sort of the join).\<close>

definition run_query :: "tables \<Rightarrow> row list" where
  "run_query t = sort_key row_key (sql_join t)"

section \<open>The pivot\<close>

type_synonym method_map = "(string, pyval) pydict"
type_synonym year_map = "(int, method_map) pydict"
type_synonym state_map = "(string, year_map) pydict"
type_synonym yield_table = "(string, state_map) pydict"

text \<open>
  One iteration of the loop, \<open>data[crop][state][year][method] = yield_val\<close>, with
  \<open>data = defaultdict(lambda: defaultdict(lambda: defaultdict(dict)))\<close>: three
  \<open>defaultdict\<close> accesses that create a missing level empty, then a dict assignment.
\<close>

fun pivot_row :: "yield_table \<Rightarrow> row \<Rightarrow> yield_table" where
  "pivot_row data (crop, state, year, method, yield_val) =
     dd_modify []
       (\<lambda>states. dd_modify []
          (\<lambda>years. dd_modify []
             (\<lambda>methods. dict_set methods method yield_val) years year)
          states state)
       data crop"

text \<open>\<open>for crop, state, year, method, yield_val in cur.fetchall(): ...\<close>\<close>

fun pivot :: "yield_table \<Rightarrow> row list \<Rightarrow> yield_table" where
  "pivot data [] = data"
| "pivot data (r # rs) = pivot (pivot_row data r) rs"

text \<open>
  The table as a group-by of the rows (a reference definition, not code): the crops in
  the order they first occur, for each the rows of that crop grouped by state, then by
  year, then by method, with the value of the last row of each key.
\<close>

definition group_table :: "row list \<Rightarrow> yield_table" where
  "group_table rows =
     group_with (group_with (group_with (group_with (\<lambda>rs. row_val (last rs)) row_method) row_year) row_state)
       row_crop rows"

text \<open>
  The table read as what it stands for: a finite map from the composite key
  (crop, state, year, method) to the value, the single-level view of the spec's design note.
\<close>

definition table_lookup :: "yield_table \<Rightarrow> key \<Rightarrow> pyval option" where
  "table_lookup data k =
     (case k of (c, s, y, m) \<Rightarrow>
        (case map_of data c of None \<Rightarrow> None | Some states \<Rightarrow>
         case map_of states s of None \<Rightarrow> None | Some years \<Rightarrow>
         case map_of years y of None \<Rightarrow> None | Some methods \<Rightarrow> map_of methods m))"

text \<open>The states of one crop, in the table's order (\<open>states.items()\<close>).\<close>

definition state_keys :: "yield_table \<Rightarrow> string \<Rightarrow> string list" where
  "state_keys data c = (case map_of data c of None \<Rightarrow> [] | Some states \<Rightarrow> map fst states)"

text \<open>
  The table's invariant: no key twice at any level, and no level empty (a crop has a state,
  a state a year, a year a method), as only the loop creates entries.
\<close>

definition methods_wf :: "method_map \<Rightarrow> bool" where
  "methods_wf ms \<longleftrightarrow> ms \<noteq> [] \<and> dict_wf ms"

definition years_wf :: "year_map \<Rightarrow> bool" where
  "years_wf ys \<longleftrightarrow> ys \<noteq> [] \<and> dict_wf ys \<and> list_all (\<lambda>(y, ms). methods_wf ms) ys"

definition states_wf :: "state_map \<Rightarrow> bool" where
  "states_wf st \<longleftrightarrow> st \<noteq> [] \<and> dict_wf st \<and> list_all (\<lambda>(s, ys). years_wf ys) st"

definition table_wf :: "yield_table \<Rightarrow> bool" where
  "table_wf d \<longleftrightarrow> dict_wf d \<and> list_all (\<lambda>(c, st). states_wf st) d"

section \<open>The connection\<close>

datatype db_error = OperationalError | ProgrammingError

text \<open>\<open>DB_CONFIG\<close>, the keyword arguments of \<open>psycopg2.connect\<close>.\<close>

definition DB_CONFIG :: "(string \<times> string) list" where
  "DB_CONFIG = [(''dbname'', ''TIH_Report''), (''user'', ''postgres''),
                (''password'', ''Farhat@2025''), (''host'', ''localhost''), (''port'', ''5432'')]"

text \<open>
  The server as the loader sees it: whether it accepts a connection with a configuration,
  whether the query runs (the schema has the three tables), and the rows it returns.
\<close>

record db_server =
  db_accepts :: "(string \<times> string) list \<Rightarrow> bool"
  db_schema_ok :: bool
  db_tables :: tables
  db_answer :: "row list"

text \<open>Client-side handles the process holds open.\<close>

record db_handles =
  conns_open :: nat
  cursors_open :: nat

text \<open>
  \<open>fetch_data\<close>: \<open>connect\<close> raises \<open>OperationalError\<close> when refused;
  \<open>execute\<close> raises \<open>ProgrammingError\<close> when the schema does not match, and the
  exception leaves \<open>fetch_data\<close> before \<open>cur.close()\<close> and \<open>conn.close()\<close> run.
\<close>

definition fetch_data :: "db_server \<Rightarrow> db_handles \<Rightarrow> (db_error + yield_table) \<times> db_handles" where
  "fetch_data srv h =
     (if \<not> db_accepts srv DB_CONFIG then (Inl OperationalError, h)
      else
        let h1 = h\<lparr>conns_open := Suc (conns_open h)\<rparr>;
            h2 = h1\<lparr>cursors_open := Suc (cursors_open h1)\<rparr>
        in if \<not> db_schema_ok srv then (Inl ProgrammingError, h2)
           else
             let data = pivot [] (db_answer srv);
                 h3 = h2\<lparr>cursors_open := cursors_open h2 - 1\<rparr>;
                 h4 = h3\<lparr>conns_open := conns_open h3 - 1\<rparr>
             in (Inr data, h4))"


section \<open>The pivot, one row at a time\<close>

lemma pivot_snoc: "pivot d (rs @ [r]) = pivot_row (pivot d rs) r"
  by (induction rs arbitrary: d) auto

text \<open>Refinement step: one iteration updates the composite-key map at the row's key.\<close>

lemma group_table_snoc: "group_table (rs @ [r]) = pivot_row (group_table rs) r"
proof -
  obtain c s y m v where r: "r = (c, s, y, m, v)" by (cases r) auto
  let ?G3 = "group_with (\<lambda>rs. row_val (last rs)) row_method"
  let ?G2 = "group_with ?G3 row_year"
  let ?G1 = "group_with ?G2 row_state"
  have h3: "?G3 (xs @ [r]) = dict_set (?G3 xs) m v" for xs
    using group_with_snoc [where h = "\<lambda>_. v" and x = r and g = "\<lambda>rs. row_val (last rs)" and f = row_method and xs = xs]
    by (simp add: r dict_set_as_modify [of _ _ _ "row_val (last [])"])
  have h2: "?G2 (xs @ [r]) = dd_modify [] (\<lambda>ms. dict_set ms m v) (?G2 xs) y" for xs
    using group_with_snoc [where h = "\<lambda>ms. dict_set ms m v" and x = r and g = ?G3 and f = row_year and xs = xs, OF h3] by (simp add: r)
  have h1: "?G1 (xs @ [r]) =
              dd_modify [] (\<lambda>ys. dd_modify [] (\<lambda>ms. dict_set ms m v) ys y) (?G1 xs) s" for xs
    using group_with_snoc [where x = r and g = ?G2 and f = row_state and xs = xs, OF h2] by (simp add: r)
  show ?thesis
    using group_with_snoc [where x = r and g = ?G1 and f = row_crop, OF h1]
    by (simp add: group_table_def r)
qed

lemma table_lookup_pivot_row:
  "table_lookup (pivot_row d r) = (table_lookup d)(row_key r \<mapsto> row_val r)"
proof -
  obtain c s y m v where r: "r = (c, s, y, m, v)" by (cases r) auto
  show ?thesis
    by (auto simp: r fun_eq_iff table_lookup_def dict_simps split: option.splits)
qed

lemma table_lookup_empty [simp]: "table_lookup [] = Map.empty"
  by (simp add: fun_eq_iff table_lookup_def)

lemma table_lookup_pivot:
  "table_lookup (pivot d rs) = table_lookup d ++ map_of (rev (map (\<lambda>r. (row_key r, row_val r)) rs))"
  by (induction rs rule: rev_induct)
    (simp_all add: pivot_snoc table_lookup_pivot_row fun_eq_iff map_add_def split: option.splits)

lemma crops_pivot: "map fst (pivot [] rs) = first_occ (map row_crop rs)"
proof (induction rs rule: rev_induct)
  case Nil
  then show ?case by simp
next
  case (snoc r rs)
  obtain c s y m v where r: "r = (c, s, y, m, v)" by (cases r) auto
  from snoc show ?case by (simp add: r pivot_snoc keys_dd_modify first_occ_snoc)
qed

lemma state_keys_pivot_row:
  "state_keys (pivot_row d r) c =
     (if row_crop r = c then
        (if row_state r \<in> set (state_keys d c) then state_keys d c else state_keys d c @ [row_state r])
      else state_keys d c)"
proof -
  obtain c' s y m v where r: "r = (c', s, y, m, v)" by (cases r) auto
  show ?thesis
    by (auto simp: r state_keys_def map_of_dd_modify keys_dd_modify split: option.splits)
qed

lemma state_keys_pivot:
  "state_keys (pivot [] rs) c = first_occ (map row_state (filter (\<lambda>r. row_crop r = c) rs))"
proof (induction rs rule: rev_induct)
  case Nil
  then show ?case by (simp add: state_keys_def)
next
  case (snoc r rs)
  then show ?case by (simp add: pivot_snoc state_keys_pivot_row first_occ_snoc)
qed


section \<open>The invariant\<close>

lemma methods_wf_set: "dict_wf ms \<Longrightarrow> methods_wf (dict_set ms m v)"
  by (simp add: methods_wf_def dict_set_as_modify [of _ _ _ undefined] dict_wf_dd_modify)

lemma years_wf_modify:
  "dict_wf ys \<Longrightarrow> list_all (\<lambda>(y, ms). methods_wf ms) ys \<Longrightarrow>
     years_wf (dd_modify [] (\<lambda>ms. dict_set ms m v) ys y)"
  unfolding years_wf_def
  by (auto intro!: dict_wf_dd_modify dd_modify_all methods_wf_set simp: methods_wf_def)

lemma states_wf_modify:
  "dict_wf st \<Longrightarrow> list_all (\<lambda>(s, ys). years_wf ys) st \<Longrightarrow>
     states_wf (dd_modify [] (\<lambda>ys. dd_modify [] (\<lambda>ms. dict_set ms m v) ys y) st s)"
  unfolding states_wf_def
  by (auto intro!: dict_wf_dd_modify dd_modify_all years_wf_modify simp: years_wf_def)

lemma table_wf_pivot_row: "table_wf d \<Longrightarrow> table_wf (pivot_row d r)"
proof -
  assume wf: "table_wf d"
  obtain c s y m v where r: "r = (c, s, y, m, v)" by (cases r) auto
  from wf show ?thesis
    unfolding table_wf_def r pivot_row.simps
    by (auto intro!: dict_wf_dd_modify dd_modify_all states_wf_modify simp: states_wf_def)
qed

lemma table_wf_pivot: "table_wf d \<Longrightarrow> table_wf (pivot d rs)"
  by (induction rs arbitrary: d) (simp_all add: table_wf_pivot_row)


section \<open>Order and sortedness\<close>

lemma table_lookup_SomeD:
  assumes "table_lookup data (c, s, y, m) = Some v"
  obtains states years where "map_of data c = Some states" and "map_of states s = Some years"
  using assms by (auto simp: table_lookup_def split: option.splits)

lemma pivot_no_loss:
  assumes "distinct (map row_key rows)" and "r \<in> set rows"
  shows "table_lookup (pivot [] rows) (row_key r) = Some (row_val r)"
proof -
  let ?kv = "rev (map (\<lambda>r. (row_key r, row_val r)) rows)"
  have "distinct (map fst ?kv)" using assms(1) by (simp add: rev_map [symmetric] comp_def)
  moreover have "(row_key r, row_val r) \<in> set ?kv" using assms(2) by auto
  ultimately show ?thesis by (simp add: table_lookup_pivot)
qed

lemma table_wf_Nil [simp]: "table_wf []"
  by (simp add: table_wf_def)

lemma dom_pivot: "dom (table_lookup (pivot [] rows)) = row_key ` set rows"
  by (simp add: table_lookup_pivot dom_map_of_conv_image_fst image_image)

lemma query_crops_sorted:
  assumes "query_result t rows"
  shows "sorted_wrt (<) (map fst (pivot [] rows))"
proof -
  from assms have "sorted (map row_key rows)" by (simp add: query_result_def)
  then have "sorted (map row_crop rows)"
    by (rule sorted_map_mono) (auto elim!: row_key.elims)
  then show ?thesis by (simp add: crops_pivot sorted_first_occ)
qed

lemma query_states_sorted:
  assumes "query_result t rows"
  shows "sorted_wrt (<) (state_keys (pivot [] rows) c)"
proof -
  let ?rc = "filter (\<lambda>r. row_crop r = c) rows"
  from assms have "sorted (map row_key ?rc)" by (simp add: query_result_def sorted_map_filter)
  then have "sorted (map row_state ?rc)"
    by (rule sorted_map_mono) (auto elim!: row_key.elims)
  then show ?thesis by (simp add: state_keys_pivot sorted_first_occ)
qed


section \<open>The connection\<close>

lemma fetch_data_Inr:
  "fst (fetch_data srv h) = Inr data \<longleftrightarrow>
     db_accepts srv DB_CONFIG \<and> db_schema_ok srv \<and> data = pivot [] (db_answer srv)"
  by (auto simp: fetch_data_def Let_def)

section \<open>Properties of the loader\<close>

text \<open>
  C2. No data is lost by the pivot: when the result rows have distinct keys
  (crop, state, year, method), every row's value is found in the table \<open>fetch_data\<close>
  returns, unchanged, under its key.
\<close>

theorem fetch_data_no_loss:
  assumes "fetch_data srv h = (Inr data, h')"
    and "distinct (map row_key (db_answer srv))" and "r \<in> set (db_answer srv)"
  shows "table_lookup data (row_key r) = Some (row_val r)"
proof -
  from assms(1) have "data = pivot [] (db_answer srv)"
    using fetch_data_Inr [of srv h data] by simp
  with assms(2,3) show ?thesis by (simp add: pivot_no_loss)
qed

text \<open>
  C3. Refinement of the nested table by a composite-key map: the table \<open>fetch_data\<close>
  returns maps each key to the value of the last row with that key (later rows overwrite
  earlier ones), and holds no other key.
\<close>

theorem fetch_data_last_write_wins:
  assumes "fetch_data srv h = (Inr data, h')"
  shows "table_lookup data = map_of (rev (map (\<lambda>r. (row_key r, row_val r)) (db_answer srv)))"
proof -
  from assms have "data = pivot [] (db_answer srv)"
    using fetch_data_Inr [of srv h data] by simp
  then show ?thesis by (simp add: table_lookup_pivot)
qed

text \<open>
  C12. On a failed query the connection and the cursor stay open: \<open>execute\<close> raises
  before \<open>cur.close()\<close> and \<open>conn.close()\<close>, and nothing closes them.
\<close>

theorem fetch_data_query_error_leaks:
  assumes "db_accepts srv DB_CONFIG" and "\<not> db_schema_ok srv"
  shows "fetch_data srv h =
           (Inl ProgrammingError,
            h\<lparr>conns_open := Suc (conns_open h), cursors_open := Suc (cursors_open h)\<rparr>)"
  using assms by (simp add: fetch_data_def Let_def)

text \<open>
  C13. When \<open>fetch_data\<close> returns, the handles it opened are closed again, and the only
  other outcome is a refused connection, which opens nothing.
\<close>

theorem fetch_data_closes_handles:
  "fst (fetch_data srv h) \<noteq> Inl ProgrammingError \<Longrightarrow> snd (fetch_data srv h) = h"
  by (auto simp: fetch_data_def Let_def)

text \<open>
  C14. The table \<open>fetch_data\<close> returns is well formed: at every level of the nesting no
  key occurs twice and no inner dict is empty.
\<close>

theorem fetch_data_table_wf:
  "fst (fetch_data srv h) = Inr data \<Longrightarrow> table_wf data"
  by (auto simp: fetch_data_Inr intro: table_wf_pivot)

text \<open>
  C15. Under the query's contract the table's crops are in strictly increasing order (each
  once), and so are the states of every crop: the \<open>ORDER BY\<close> order survives the pivot.
\<close>

theorem fetch_data_sorted:
  assumes "query_result (db_tables srv) (db_answer srv)" and "fst (fetch_data srv h) = Inr data"
  shows "sorted_wrt (<) (map fst data) \<and> sorted_wrt (<) (state_keys data c)"
  using assms query_crops_sorted [OF assms(1)] query_states_sorted [OF assms(1)]
  by (simp add: fetch_data_Inr)


text \<open>
  C29. The loop is a group-by: the nested defaultdict that \<open>fetch_data\<close>'s loop builds
  from any row list equals the reference \<open>group_table\<close>. Crops come in the order they
  first occur, then each crop's states, years and methods likewise, and each key holds the
  value of its last row.
\<close>

theorem pivot_group_table: "pivot [] rows = group_table rows"
proof (induction rows rule: rev_induct)
  case Nil
  then show ?case by (simp add: group_table_def group_with_def)
next
  case (snoc r rs)
  then show ?case by (simp add: pivot_snoc group_table_snoc)
qed

end
