(* ===== verification/Docx.thy ===== *)
theory Docx
  imports Prelude
begin

text \<open>
  The part of python-docx that \<open>create_report\<close> and \<open>add_footer\<close> call, as a value
  model of the document: a body of blocks (paragraphs and tables) and a list of sections
  (page geometry, orientation and the footer's paragraphs). A para holds runs and, for
  the page number, a \<open>w:fldSimple\<close> element with the runs of its cached result. Lengths
  are EMU, python-docx's \<open>Length\<close>. A run holds its text as \<open>run.text\<close> reads it
  back. A table holds the widths of its grid columns and the text of each cell
  (\<open>cell.text = s\<close> replaces the cell's content by one para with that text). Reading a picture file is
  modelled by what the file holds; the picture's height, which python-docx scales from the
  image's aspect ratio, and the XML serialisation of \<open>save\<close> are not modelled.
  Where python-docx indexes a list (\<open>table.rows[i].cells[j]\<close>, \<open>doc.sections[0]\<close>,
  \<open>footer.paragraphs[0]\<close>) the model returns \<open>None\<close> out of range, as Python raises
  \<open>IndexError\<close> there.
\<close>

section \<open>Lengths and colours\<close>

definition Inches_1 :: emu where
  "Inches_1 = 914400"

definition Pt :: "nat \<Rightarrow> emu" where
  "Pt n = 12700 * n"

datatype align = LEFT | CENTER | RIGHT
datatype orient = PORTRAIT | LANDSCAPE

section \<open>Runs and paragraphs\<close>

record picture =
  pic_path :: path
  pic_width :: emu

record run =
  r_text :: string
  r_bold :: "bool option"
  r_underline :: "bool option"
  r_size :: "emu option"
  r_color :: "(nat \<times> nat \<times> nat) option"
  r_picture :: "picture option"

datatype para_item =
    PRun run
  | PFldSimple string "run list"
    \<comment> \<open>a \<open>w:fldSimple\<close> element: its instruction and the runs inside it\<close>

record border =
  b_val :: string
  b_sz :: string
  b_space :: string
  b_color :: string

record para =
  p_align :: "align option"
  p_items :: "para_item list"
  p_bottom_border :: "border option"

definition new_run :: "string \<Rightarrow> run" where
  "new_run s = \<lparr>r_text = s, r_bold = None, r_underline = None, r_size = None, r_color = None,
                r_picture = None\<rparr>"

text \<open>\<open>doc.add_paragraph(text)\<close>: a run is added only when the text is not empty.\<close>

definition new_paragraph :: "string \<Rightarrow> para" where
  "new_paragraph s =
     \<lparr>p_align = None, p_items = (if s = [] then [] else [PRun (new_run s)]), p_bottom_border = None\<rparr>"

text \<open>\<open>paragraph.add_run(text)\<close>.\<close>

definition add_run :: "para \<Rightarrow> string \<Rightarrow> para" where
  "add_run p s = p\<lparr>p_items := p_items p @ [PRun (new_run s)]\<rparr>"

text \<open>The runs of a para (\<open>paragraph.runs\<close>: the \<open>w:r\<close> children only).\<close>

fun item_runs :: "para_item \<Rightarrow> run list" where
  "item_runs (PRun r) = [r]"
| "item_runs (PFldSimple _ _) = []"

definition runs :: "para \<Rightarrow> run list" where
  "runs p = concat (map item_runs (p_items p))"

text \<open>
  \<open>f(paragraph.runs[i])\<close>: update the \<open>i\<close>-th run in place; \<open>None\<close> is the
  \<open>IndexError\<close> of a para with fewer runs.
\<close>

fun update_run_items :: "nat \<Rightarrow> (run \<Rightarrow> run) \<Rightarrow> para_item list \<Rightarrow> para_item list option" where
  "update_run_items i f [] = None"
| "update_run_items i f (PFldSimple instr rs # items) =
     map_option (Cons (PFldSimple instr rs)) (update_run_items i f items)"
| "update_run_items i f (PRun r # items) =
     (if i = 0 then Some (PRun (f r) # items)
      else map_option (Cons (PRun r)) (update_run_items (i - 1) f items))"

definition update_run :: "nat \<Rightarrow> (run \<Rightarrow> run) \<Rightarrow> para \<Rightarrow> para option" where
  "update_run i f p = map_option (\<lambda>items. p\<lparr>p_items := items\<rparr>) (update_run_items i f (p_items p))"

text \<open>Appending a raw element to the para (\<open>paragraph._element.append(...)\<close>).\<close>

definition append_item :: "para \<Rightarrow> para_item \<Rightarrow> para" where
  "append_item p x = p\<lparr>p_items := p_items p @ [x]\<rparr>"

section \<open>Tables\<close>

text \<open>
  A table: its style, the widths of its grid columns (the \<open>w:gridCol\<close> elements of
  \<open>w:tblGrid\<close>) and the text of its cells, row by row.
\<close>

record table =
  tbl_style :: "string option"
  tbl_grid :: "emu list"
  tbl_rows :: "string list list"

text \<open>The number of columns, \<open>len(tbl.tblGrid.gridCol_lst)\<close>.\<close>

abbreviation tbl_cols :: "table \<Rightarrow> nat" where
  "tbl_cols t \<equiv> length (tbl_grid t)"

text \<open>
  \<open>body.add_table(rows, cols, width)\<close> (\<open>CT_Tbl.new_tbl\<close>): \<open>cols\<close> grid columns,
  each \<open>width // cols\<close> wide (\<open>0\<close> when there are no columns), every cell empty.
\<close>

definition new_table :: "nat \<Rightarrow> nat \<Rightarrow> emu \<Rightarrow> table" where
  "new_table nrows ncols width =
     \<lparr>tbl_style = None, tbl_grid = replicate ncols (if 0 < ncols then width div ncols else 0),
      tbl_rows = replicate nrows (replicate ncols '''')\<rparr>"

text \<open>\<open>table.add_row()\<close>: a row with one empty cell per grid column.\<close>

definition add_row :: "table \<Rightarrow> table" where
  "add_row t = t\<lparr>tbl_rows := tbl_rows t @ [replicate (tbl_cols t) '''']\<rparr>"

text \<open>\<open>table.rows[r].cells[c].text = s\<close>.\<close>

definition set_cell :: "table \<Rightarrow> nat \<Rightarrow> nat \<Rightarrow> string \<Rightarrow> table option" where
  "set_cell t r c s =
     (if r < length (tbl_rows t) \<and> c < length (tbl_rows t ! r)
      then Some (t\<lparr>tbl_rows := (tbl_rows t)[r := (tbl_rows t ! r)[c := s]]\<rparr>) else None)"

text \<open>\<open>for i, text in enumerate(texts, start=i): table.rows[r].cells[i].text = text\<close>.\<close>

fun fill_row :: "table \<Rightarrow> nat \<Rightarrow> nat \<Rightarrow> string list \<Rightarrow> table option" where
  "fill_row t r i [] = Some t"
| "fill_row t r i (s # ss) = (case set_cell t r i s of None \<Rightarrow> None | Some t' \<Rightarrow> fill_row t' r (Suc i) ss)"

text \<open>The grid invariant of a table: every row has one cell per column.\<close>

definition table_rect :: "table \<Rightarrow> bool" where
  "table_rect t \<longleftrightarrow> list_all (\<lambda>row. length row = tbl_cols t) (tbl_rows t)"

section \<open>Sections and the document\<close>

record docsec =
  sec_orientation :: orient
  sec_page_width :: emu
  sec_page_height :: emu
  sec_top_margin :: emu
  sec_bottom_margin :: emu
  sec_left_margin :: emu
  sec_right_margin :: emu
  sec_footer :: "para list"

datatype block = BPara para | BTable table

record document =
  doc_body :: "block list"
  doc_sections :: "docsec list"

text \<open>
  \<open>Document()\<close> opens python-docx's default template: an empty body and one US-Letter
  portrait section (8.5 by 11 inches, margins 1 inch top and bottom, 1.25 inches left and
  right). Its footer, created on first access, holds one empty paragraph.
\<close>

definition default_section :: docsec where
  "default_section =
     \<lparr>sec_orientation = PORTRAIT, sec_page_width = 7772400, sec_page_height = 10058400,
      sec_top_margin = 914400, sec_bottom_margin = 914400,
      sec_left_margin = 1143000, sec_right_margin = 1143000,
      sec_footer = [new_paragraph '''']\<rparr>"

definition Document :: document where
  "Document = \<lparr>doc_body = [], doc_sections = [default_section]\<rparr>"

text \<open>The width between a section's margins.\<close>

definition text_width :: "docsec \<Rightarrow> emu" where
  "text_width s = sec_page_width s - sec_left_margin s - sec_right_margin s"

text \<open>
  \<open>doc._block_width\<close>, the width \<open>doc.add_table\<close> gives a new table: the text width of
  the last section, \<open>None\<close> (\<open>IndexError\<close>) when there is none. Lengths are natural
  numbers here, so a margin wider than the page gives \<open>0\<close> where python-docx would give a
  negative length; every section the report builds has one-inch margins.
\<close>

definition block_width :: "document \<Rightarrow> emu option" where
  "block_width d = (case rev (doc_sections d) of [] \<Rightarrow> None | s # _ \<Rightarrow> Some (text_width s))"

definition add_block :: "document \<Rightarrow> block \<Rightarrow> document" where
  "add_block d b = d\<lparr>doc_body := doc_body d @ [b]\<rparr>"

text \<open>
  \<open>f(doc.sections[0].footer.paragraphs[0])\<close>: \<open>None\<close> when there is no section or the
  footer has no paragraph.
\<close>

definition update_footer_para :: "(para \<Rightarrow> para) \<Rightarrow> document \<Rightarrow> document option" where
  "update_footer_para f d =
     (case doc_sections d of
        [] \<Rightarrow> None
      | s # ss \<Rightarrow>
          (case sec_footer s of
             [] \<Rightarrow> None
           | p # ps \<Rightarrow> Some (d\<lparr>doc_sections := s\<lparr>sec_footer := f p # ps\<rparr> # ss\<rparr>)))"

section \<open>Tables: filling a row\<close>

lemma fill_row_Some:
  assumes "r < length (tbl_rows t)" and "i + length ss \<le> length (tbl_rows t ! r)"
  shows "fill_row t r i ss =
           Some (t\<lparr>tbl_rows := (tbl_rows t)[r := take i (tbl_rows t ! r) @ ss @
                                                 drop (i + length ss) (tbl_rows t ! r)]\<rparr>)"
  using assms
proof (induction ss arbitrary: t i)
  case Nil
  then show ?case by simp
next
  case (Cons s ss)
  let ?row = "tbl_rows t ! r"
  have set: "set_cell t r i s = Some (t\<lparr>tbl_rows := (tbl_rows t)[r := ?row[i := s]]\<rparr>)"
    using Cons.prems by (simp add: set_cell_def)
  let ?t' = "t\<lparr>tbl_rows := (tbl_rows t)[r := ?row[i := s]]\<rparr>"
  have "fill_row ?t' r (Suc i) ss =
          Some (?t'\<lparr>tbl_rows := (tbl_rows ?t')[r := take (Suc i) (tbl_rows ?t' ! r) @ ss @
                                               drop (Suc i + length ss) (tbl_rows ?t' ! r)]\<rparr>)"
    using Cons.prems by (intro Cons.IH) simp_all
  moreover have "tbl_rows ?t' ! r = ?row[i := s]"
    using Cons.prems by simp
  moreover have "take (Suc i) (?row[i := s]) = take i ?row @ [s]"
    using Cons.prems by (simp add: take_Suc_conv_app_nth)
  moreover have "drop (Suc i + length ss) (?row[i := s]) = drop (i + length (s # ss)) ?row"
    by simp
  ultimately show ?case using set by simp
qed

lemma fill_row_full:
  assumes "r < length (tbl_rows t)" and "length ss = length (tbl_rows t ! r)"
  shows "fill_row t r 0 ss = Some (t\<lparr>tbl_rows := (tbl_rows t)[r := ss]\<rparr>)"
  using fill_row_Some [of r t 0 ss] assms by simp

lemma new_table_fields [simp]:
  "tbl_rows (new_table n c w) = replicate n (replicate c '''')"
  "tbl_grid (new_table n c w) = replicate c (if 0 < c then w div c else 0)"
  "tbl_style (new_table n c w) = None"
  by (simp_all add: new_table_def)

lemma table_rect_new_table: "table_rect (new_table n c w)"
  by (simp add: table_rect_def new_table_def list_all_iff)

lemma table_rect_add_row: "table_rect t \<Longrightarrow> table_rect (add_row t)"
  by (simp add: table_rect_def add_row_def)

lemma table_rect_set_cell: "table_rect t \<Longrightarrow> set_cell t r c s = Some t' \<Longrightarrow> table_rect t'"
  by (auto simp: table_rect_def set_cell_def list_all_iff dest!: set_update_subset_insert [THEN subsetD]
      split: if_splits)

lemma table_rect_fill_row: "table_rect t \<Longrightarrow> fill_row t r i ss = Some t' \<Longrightarrow> table_rect t'"
proof (induction ss arbitrary: t i)
  case Nil
  then show ?case by simp
next
  case (Cons s ss)
  then show ?case by (auto split: option.splits dest: table_rect_set_cell)
qed

lemma set_cell_None: "set_cell t r c s = None \<longleftrightarrow> \<not> (r < length (tbl_rows t) \<and> c < length (tbl_rows t ! r))"
  by (simp add: set_cell_def)

end
