(* ===== verification/Renderer.thy ===== *)
theory Renderer
  imports Loader Docx "HOL-Library.Monad_Syntax"
begin

text \<open>
  The document renderer: \<open>add_footer\<close> and \<open>create_report\<close> of \<open>src/gen_report.py\<close>
  (lines 36--139), over the document model of \<open>Docx\<close> and the table of \<open>Loader\<close>.
  A python-docx object that the code creates and then mutates before anything else reads the
  document (a paragraph, its run) is built as a value and then added; the resulting document
  is the same. The effects of a run are on a world: the database and the handles the process
  holds, the files (the logo is read, the report written), the clock and standard output.
  Every exception of the code is a value of \<open>report_error\<close>.
\<close>

section \<open>The world\<close>

datatype fs_entry = ImageFile | DocxFile document | OtherFile string

datatype report_error =
    DbError db_error
  | FileNotFound path
  | UnrecognizedImage path
  | IndexError
  | SaveFailed path

record world =
  w_db :: db_server
  w_handles :: db_handles
  w_files :: "path \<Rightarrow> fs_entry option"
  w_writable :: "path \<Rightarrow> bool"
  w_now :: date
  w_stdout :: "string list"

section \<open>Page setup\<close>

text \<open>
  \<^verbatim>\<open>section.top_margin = section.bottom_margin = ... = Inches(1)
  if orientation.upper() == 'LANDSCAPE':
      section.orientation = 1
      section.page_width, section.page_height = section.page_height, section.page_width\<close>
\<close>

definition setup_section :: "string \<Rightarrow> docsec \<Rightarrow> docsec" where
  "setup_section orientation sec =
     (let sec1 = sec\<lparr>sec_top_margin := Inches_1, sec_bottom_margin := Inches_1,
                     sec_left_margin := Inches_1, sec_right_margin := Inches_1\<rparr>
      in if py_upper orientation = ''LANDSCAPE''
         then sec1\<lparr>sec_orientation := LANDSCAPE,
                   sec_page_width := sec_page_height sec1, sec_page_height := sec_page_width sec1\<rparr>
         else sec1)"

section \<open>The header block\<close>

text \<open>\<open>Inches(1.1)\<close>: \<open>int(1.1 * 914400)\<close>.\<close>

definition logo_width :: emu where
  "logo_width = 1005840"

text \<open>
  The logo paragraph: \<open>add_picture\<close> opens the file and reads its header; a missing file
  raises \<open>FileNotFoundError\<close>, a file that is not an image python-docx knows raises
  \<open>UnrecognizedImageError\<close>.
\<close>

definition logo_paragraph :: "(path \<Rightarrow> fs_entry option) \<Rightarrow> path \<Rightarrow> report_error + para" where
  "logo_paragraph files logo_path =
     (let logo_para = (new_paragraph '''')\<lparr>p_align := Some CENTER\<rparr>;
          logo_run = new_run ''''
      in case files logo_path of
           None \<Rightarrow> Inl (FileNotFound logo_path)
         | Some ImageFile \<Rightarrow>
             Inr (append_item logo_para
                    (PRun (logo_run\<lparr>r_picture := Some \<lparr>pic_path = logo_path, pic_width = logo_width\<rparr>\<rparr>)))
         | Some _ \<Rightarrow> Inl (UnrecognizedImage logo_path))"

definition title_paragraph :: "para option" where
  "title_paragraph =
     (let title = (new_paragraph
                     ''IDEAS - Institute of Data Engineering, Analytics and Science Foundation'')
                  \<lparr>p_align := Some CENTER\<rparr>
      in do {
           title \<leftarrow> update_run 0 (\<lambda>r. r\<lparr>r_size := Some (Pt 12)\<rparr>) title;
           update_run 0 (\<lambda>r. r\<lparr>r_bold := Some True\<rparr>) title
         })"

definition subtitle_paragraph :: "para option" where
  "subtitle_paragraph =
     update_run 0 (\<lambda>r. r\<lparr>r_size := Some (Pt 9)\<rparr>)
       ((new_paragraph ''ISI Kolkata | https://www.ideas-tih.org | +91 6289351800'')
        \<lparr>p_align := Some CENTER\<rparr>)"

text \<open>\<open>doc.add_paragraph()\<close>: an empty spacer paragraph.\<close>

definition spacer :: para where
  "spacer = new_paragraph ''''"

text \<open>The horizontal rule: an empty paragraph with a bottom border (\<open>w:pBdr/w:bottom\<close>).\<close>

definition hr_paragraph :: para where
  "hr_paragraph =
     (new_paragraph '''')\<lparr>p_bottom_border :=
        Some \<lparr>b_val = ''single'', b_sz = ''12'', b_space = ''1'', b_color = ''auto''\<rparr>\<rparr>"

definition heading_paragraph :: para where
  "heading_paragraph =
     append_item ((new_paragraph '''')\<lparr>p_align := Some CENTER\<rparr>)
       (PRun ((new_run ''Crop wise Yield forecasts'')\<lparr>r_bold := Some True, r_size := Some (Pt 14)\<rparr>))"

definition header_blocks :: "block list option" where
  "header_blocks = do {
     title \<leftarrow> title_paragraph;
     subtitle \<leftarrow> subtitle_paragraph;
     Some [BPara title, BPara subtitle, BPara spacer, BPara hr_paragraph, BPara heading_paragraph]
   }"

section \<open>One section per crop\<close>

definition crop_heading :: "string \<Rightarrow> para" where
  "crop_heading crop =
     append_item ((new_paragraph '''')\<lparr>p_align := Some CENTER\<rparr>)
       (PRun ((new_run (py_upper crop))\<lparr>r_bold := Some True, r_underline := Some True,
                                         r_size := Some (Pt 12), r_color := Some (0, 102, 204)\<rparr>))"

definition headers :: "string list" where
  "headers = [''State'', ''2024-25 ARIMA'', ''ARIMA RMSE'', ''2024-25 XGBoost'', ''XGBoost RMSE'',
              ''2024-25 RF'', ''RF RMSE'', ''2023-24 MoA&FW'', ''2022-23 MoA&FW'']"

definition sub_headers :: "string list" where
  "sub_headers = ['''', ''(Yield)'', ''(RMSE)'', ''(Yield)'', ''(RMSE)'', ''(Yield)'', ''(RMSE)'', '''', '''']"

text \<open>\<open>str(years.get(year, {}).get(method, ""))\<close>.\<close>

definition cell_text :: "year_map \<Rightarrow> int \<Rightarrow> string \<Rightarrow> string" where
  "cell_text years year method = py_str (dict_get (dict_get years year []) method (PyStr ''''))"

text \<open>The nine cells the code writes into a state's row, \<open>row[0]\<close> to \<open>row[8]\<close>.\<close>

definition state_cells :: "string \<Rightarrow> year_map \<Rightarrow> string list" where
  "state_cells state years =
     [state,
      cell_text years 2024 ''ARIMA'', cell_text years 2024 ''ARIMA_RMSE'',
      cell_text years 2024 ''XGBoost'', cell_text years 2024 ''XGBoost_RMSE'',
      cell_text years 2024 ''Random Forest'', cell_text years 2024 ''RF_RMSE'',
      cell_text years 2023 ''MoA&FW'', cell_text years 2022 ''MoA&FW'']"

text \<open>\<open>row = table.add_row().cells\<close>, then the nine assignments.\<close>

definition add_state_row :: "table \<Rightarrow> string \<Rightarrow> year_map \<Rightarrow> table option" where
  "add_state_row table state years =
     fill_row (add_row table) (length (tbl_rows table)) 0 (state_cells state years)"

fun add_state_rows :: "table \<Rightarrow> state_map \<Rightarrow> table option" where
  "add_state_rows table [] = Some table"
| "add_state_rows table ((state, years) # states) =
     do { table \<leftarrow> add_state_row table state years; add_state_rows table states }"

definition crop_table :: "emu \<Rightarrow> state_map \<Rightarrow> table option" where
  "crop_table block_w states = do {
     table \<leftarrow> Some ((new_table 2 9 block_w)\<lparr>tbl_style := Some ''Table Grid''\<rparr>);
     table \<leftarrow> fill_row table 0 0 headers;
     table \<leftarrow> fill_row table 1 0 sub_headers;
     add_state_rows table states
   }"

definition crop_section :: "emu \<Rightarrow> string \<Rightarrow> state_map \<Rightarrow> block list option" where
  "crop_section block_w crop states = do {
     table \<leftarrow> crop_table block_w states;
     Some [BPara (crop_heading crop), BTable table, BPara spacer]
   }"

text \<open>\<open>for crop, states in data.items(): ...\<close>\<close>

fun crop_sections :: "emu \<Rightarrow> yield_table \<Rightarrow> block list option" where
  "crop_sections block_w [] = Some []"
| "crop_sections block_w ((crop, states) # data) =
     do { bs \<leftarrow> crop_section block_w crop states; rest \<leftarrow> crop_sections block_w data; Some (bs @ rest) }"

section \<open>The footer\<close>

text \<open>\<open>"\<copyright> 2025 IDEAS-TIH. All rights reserved. | "\<close>, the sign in UTF-8.\<close>

definition copyright_text :: string where
  "copyright_text = [CHR 0xC2, CHR 0xA9] @ '' 2025 IDEAS-TIH. All rights reserved. | ''"

definition footer_run :: "date \<Rightarrow> run" where
  "footer_run now = new_run (copyright_text @ ''Date: '' @ strftime_dmy now @ '' | '')"

text \<open>
  The page number: a \<open>w:fldSimple\<close> with instruction \<open>PAGE\<close> whose cached result is a
  run with the text \<open>"Page "\<close>.
\<close>

definition page_field :: para_item where
  "page_field = PFldSimple ''PAGE'' [new_run ''Page '']"

definition add_footer :: "document \<Rightarrow> date \<Rightarrow> document option" where
  "add_footer doc now =
     update_footer_para
       (\<lambda>p. append_item (append_item (p\<lparr>p_align := Some CENTER\<rparr>) (PRun (footer_run now))) page_field)
       doc"

section \<open>Saving and the whole report\<close>

definition save :: "document \<Rightarrow> path \<Rightarrow> world \<Rightarrow> report_error + world" where
  "save doc output_path w =
     (if w_writable w output_path then Inr (w\<lparr>w_files := (w_files w)(output_path \<mapsto> DocxFile doc)\<rparr>)
      else Inl (SaveFailed output_path))"

text \<open>The confirmation line, \<open>print(f"... Report saved to {output_path}")\<close>: a check mark and its variation selector in UTF-8, then the text.\<close>

definition report_message :: "path \<Rightarrow> string" where
  "report_message output_path =
     [CHR 0xE2, CHR 0x9C, CHR 0x94, CHR 0xEF, CHR 0xB8, CHR 0x8F] @ '' Report saved to '' @ output_path"

text \<open>
  Lines 54--137 of \<open>create_report\<close>: the document built from the table, the orientation,
  the logo file and the clock.
\<close>

definition build_document ::
  "yield_table \<Rightarrow> string \<Rightarrow> path \<Rightarrow> (path \<Rightarrow> fs_entry option) \<Rightarrow> date \<Rightarrow> report_error + document" where
  "build_document data orientation logo_path files now =
     (let doc = Document;
          doc = doc\<lparr>doc_sections := map (setup_section orientation) (doc_sections doc)\<rparr>
      in case logo_paragraph files logo_path of
           Inl e \<Rightarrow> Inl e
         | Inr logo \<Rightarrow>
             (case do { hs \<leftarrow> header_blocks; block_w \<leftarrow> block_width doc; cs \<leftarrow> crop_sections block_w data;
                        Some (BPara logo # hs @ cs) } of
                None \<Rightarrow> Inl IndexError
              | Some blocks \<Rightarrow>
                  (case add_footer (foldl add_block doc blocks) now of
                     None \<Rightarrow> Inl IndexError
                   | Some doc \<Rightarrow> Inr doc)))"

definition create_report :: "path \<Rightarrow> path \<Rightarrow> string \<Rightarrow> path \<Rightarrow> world \<Rightarrow> (report_error + unit) \<times> world" where
  "create_report template_path output_path orientation logo_path w =
     (case fetch_data (w_db w) (w_handles w) of
        (Inl e, h) \<Rightarrow> (Inl (DbError e), w\<lparr>w_handles := h\<rparr>)
      | (Inr data, h) \<Rightarrow>
          (let w = w\<lparr>w_handles := h\<rparr>
           in case build_document data orientation logo_path (w_files w) (w_now w) of
                Inl e \<Rightarrow> (Inl e, w)
              | Inr doc \<Rightarrow>
                  (case save doc output_path w of
                     Inl e \<Rightarrow> (Inl e, w)
                   | Inr w \<Rightarrow> (Inr (), w\<lparr>w_stdout := w_stdout w @ [report_message output_path]\<rparr>))))"

section \<open>What the report promises\<close>

text \<open>
  The document \<open>create_report\<close> writes, stated directly: the logo, title, subtitle,
  spacer, rule and heading paragraphs, then for each crop of the table its heading, its table
  and a spacer, and one section with the chosen page setup and the footer.
\<close>

definition table_spec :: "emu \<Rightarrow> state_map \<Rightarrow> table" where
  "table_spec block_w states =
     \<lparr>tbl_style = Some ''Table Grid'', tbl_grid = replicate 9 (block_w div 9),
      tbl_rows = [headers, sub_headers] @ map (\<lambda>(state, years). state_cells state years) states\<rparr>"

definition logo_spec :: "path \<Rightarrow> para" where
  "logo_spec logo_path =
     \<lparr>p_align = Some CENTER,
      p_items = [PRun ((new_run '''')\<lparr>r_picture := Some \<lparr>pic_path = logo_path, pic_width = logo_width\<rparr>\<rparr>)],
      p_bottom_border = None\<rparr>"

definition title_spec :: para where
  "title_spec =
     \<lparr>p_align = Some CENTER,
      p_items = [PRun ((new_run ''IDEAS - Institute of Data Engineering, Analytics and Science Foundation'')
                       \<lparr>r_bold := Some True, r_size := Some (Pt 12)\<rparr>)],
      p_bottom_border = None\<rparr>"

definition subtitle_spec :: para where
  "subtitle_spec =
     \<lparr>p_align = Some CENTER,
      p_items = [PRun ((new_run ''ISI Kolkata | https://www.ideas-tih.org | +91 6289351800'')
                       \<lparr>r_size := Some (Pt 9)\<rparr>)],
      p_bottom_border = None\<rparr>"

definition footer_spec :: "date \<Rightarrow> para" where
  "footer_spec now = \<lparr>p_align = Some CENTER, p_items = [PRun (footer_run now), page_field], p_bottom_border = None\<rparr>"

definition crop_blocks :: "emu \<Rightarrow> string \<Rightarrow> state_map \<Rightarrow> block list" where
  "crop_blocks block_w crop states = [BPara (crop_heading crop), BTable (table_spec block_w states), BPara spacer]"

definition report_spec :: "yield_table \<Rightarrow> string \<Rightarrow> path \<Rightarrow> date \<Rightarrow> document" where
  "report_spec data orientation logo_path now =
     (let sec = setup_section orientation default_section
      in \<lparr>doc_body = map BPara [logo_spec logo_path, title_spec, subtitle_spec, spacer, hr_paragraph,
                                heading_paragraph] @
                    concat (map (\<lambda>(crop, states). crop_blocks (text_width sec) crop states) data),
         doc_sections = [sec\<lparr>sec_footer := [footer_spec now]\<rparr>]\<rparr>)"

text \<open>The eight value columns of a state's row, as (year, method).\<close>

definition report_columns :: "(int \<times> string) list" where
  "report_columns =
     [(2024, ''ARIMA''), (2024, ''ARIMA_RMSE''), (2024, ''XGBoost''), (2024, ''XGBoost_RMSE''),
      (2024, ''Random Forest''), (2024, ''RF_RMSE''), (2023, ''MoA&FW''), (2022, ''MoA&FW'')]"

definition doc_tables :: "document \<Rightarrow> table list" where
  "doc_tables d = [t. BTable t \<leftarrow> doc_body d]"

text \<open>The crop headings of a document: its underlined runs, in order.\<close>

definition doc_headings :: "document \<Rightarrow> string list" where
  "doc_headings d = [r_text r. BPara p \<leftarrow> doc_body d, PRun r \<leftarrow> p_items p, r_underline r = Some True]"

text \<open>
  A reader of the written document: the text of a paragraph (its runs' texts), and the
  crop sections after the six header blocks. A section is read as a heading paragraph, a
  table and a spacer paragraph, and yields the heading's text and the table's rows below
  the two header rows. Any other shape is unreadable (\<open>None\<close>).
\<close>

definition para_text :: "para \<Rightarrow> string" where
  "para_text p = concat (map r_text (runs p))"

fun read_crops :: "block list \<Rightarrow> (string \<times> string list list) list option" where
  "read_crops [] = Some []"
| "read_crops (BPara h # BTable t # BPara sp # bs) =
     map_option (Cons (para_text h, drop 2 (tbl_rows t))) (read_crops bs)"
| "read_crops _ = None"

definition read_report :: "document \<Rightarrow> (string \<times> string list list) list option" where
  "read_report d = read_crops (drop 6 (doc_body d))"

section \<open>Tables\<close>

lemma length_state_cells [simp]: "length (state_cells s ys) = 9"
  by (simp add: state_cells_def)

lemma add_state_row_Some:
  "tbl_cols t = 9 \<Longrightarrow> add_state_row t s ys = Some (t\<lparr>tbl_rows := tbl_rows t @ [state_cells s ys]\<rparr>)"
  by (simp add: add_state_row_def add_row_def fill_row_full)

lemma add_state_rows_Some:
  "tbl_cols t = 9 \<Longrightarrow>
     add_state_rows t states = Some (t\<lparr>tbl_rows := tbl_rows t @ map (\<lambda>(s, ys). state_cells s ys) states\<rparr>)"
  by (induction t states rule: add_state_rows.induct) (simp_all add: add_state_row_Some)

lemma crop_table_Some: "crop_table bw states = Some (table_spec bw states)"
proof -
  let ?t0 = "(new_table 2 9 bw)\<lparr>tbl_style := Some ''Table Grid''\<rparr>"
  have h: "fill_row ?t0 0 0 headers = Some (?t0\<lparr>tbl_rows := (tbl_rows ?t0)[0 := headers]\<rparr>)"
    by (rule fill_row_full) (simp_all add: headers_def)
  let ?t1 = "?t0\<lparr>tbl_rows := (tbl_rows ?t0)[0 := headers]\<rparr>"
  have s: "fill_row ?t1 1 0 sub_headers = Some (?t1\<lparr>tbl_rows := (tbl_rows ?t1)[1 := sub_headers]\<rparr>)"
    by (rule fill_row_full) (simp_all add: sub_headers_def numeral_eq_Suc)
  have r: "(tbl_rows ?t1)[1 := sub_headers] = [headers, sub_headers]"
    by (simp add: numeral_eq_Suc)
  have "crop_table bw states = add_state_rows (?t1\<lparr>tbl_rows := (tbl_rows ?t1)[1 := sub_headers]\<rparr>) states"
    unfolding crop_table_def by (simp only: h s bind.simps)
  also have "\<dots> = Some (table_spec bw states)"
    by (simp only: r, simp add: add_state_rows_Some table_spec_def)
  finally show ?thesis .
qed

lemma header_blocks_Some:
  "header_blocks = Some [BPara title_spec, BPara subtitle_spec, BPara spacer, BPara hr_paragraph, BPara heading_paragraph]"
  by (simp add: header_blocks_def title_paragraph_def subtitle_paragraph_def title_spec_def subtitle_spec_def
                update_run_def new_paragraph_def)

lemma crop_sections_Some:
  "crop_sections bw data = Some (concat (map (\<lambda>(crop, states). crop_blocks bw crop states) data))"
  by (induction bw data rule: crop_sections.induct) (simp_all add: crop_section_def crop_table_Some crop_blocks_def)

lemma foldl_add_block: "foldl add_block d bs = d\<lparr>doc_body := doc_body d @ bs\<rparr>"
  by (induction bs arbitrary: d) (simp_all add: add_block_def)

lemma logo_paragraph_image:
  "files logo_path = Some ImageFile \<Longrightarrow> logo_paragraph files logo_path = Inr (logo_spec logo_path)"
  by (simp add: logo_paragraph_def logo_spec_def append_item_def new_paragraph_def)

lemma sec_footer_setup_section [simp]: "sec_footer (setup_section orientation s) = sec_footer s"
  by (simp add: setup_section_def Let_def)

lemma setup_section_footer_update:
  "(setup_section orientation s)\<lparr>sec_footer := f\<rparr> = setup_section orientation (s\<lparr>sec_footer := f\<rparr>)"
  by (simp add: setup_section_def Let_def)

lemma build_document_spec:
  assumes "files logo_path = Some ImageFile"
  shows "build_document data orientation logo_path files now = Inr (report_spec data orientation logo_path now)"
  using assms
  by (simp add: build_document_def logo_paragraph_image header_blocks_Some crop_sections_Some foldl_add_block
                add_block_def add_footer_def update_footer_para_def Document_def report_spec_def
                default_section_def footer_spec_def append_item_def new_paragraph_def Let_def
                setup_section_footer_update block_width_def)

lemma doc_sections_report_spec:
  "doc_sections (report_spec data orientation logo_path now) =
     [(setup_section orientation default_section)\<lparr>sec_footer := [footer_spec now]\<rparr>]"
  by (simp add: report_spec_def Let_def)

lemma report_spec_sections:
  "list_all (\<lambda>s. (sec_page_height s < sec_page_width s \<longleftrightarrow> py_upper orientation = ''LANDSCAPE'') \<and>
                 (sec_orientation s = LANDSCAPE \<longleftrightarrow> py_upper orientation = ''LANDSCAPE'') \<and>
                 sec_top_margin s = Inches_1 \<and> sec_bottom_margin s = Inches_1 \<and>
                 sec_left_margin s = Inches_1 \<and> sec_right_margin s = Inches_1)
     (doc_sections (report_spec data orientation logo_path now))"
  by (simp add: doc_sections_report_spec setup_section_def default_section_def Let_def)

lemma cell_text_lookup:
  "cell_text years y m = (case map_of years y of None \<Rightarrow> '''' | Some ms \<Rightarrow>
                            (case map_of ms m of None \<Rightarrow> '''' | Some v \<Rightarrow> py_str v))"
  by (simp add: cell_text_def dict_get_def split: option.splits)

lemma cell_text_table_lookup:
  assumes "map_of data c = Some states" and "map_of states s = Some years"
  shows "cell_text years y m = (case table_lookup data (c, s, y, m) of None \<Rightarrow> '''' | Some v \<Rightarrow> py_str v)"
  using assms by (simp add: table_lookup_def cell_text_lookup split: option.split)

lemma state_cells_lookup:
  assumes "map_of data c = Some states" and "map_of states s = Some years"
  shows "state_cells s years =
           s # map (\<lambda>(y, m). case table_lookup data (c, s, y, m) of None \<Rightarrow> '''' | Some v \<Rightarrow> py_str v)
                   report_columns"
  using assms by (simp add: state_cells_def report_columns_def cell_text_table_lookup)

lemma doc_tables_report_spec:
  "doc_tables (report_spec data orientation logo_path now) = map (\<lambda>(c, st). table_spec (text_width (setup_section orientation default_section)) st) data"
  by (induction data) (auto simp: doc_tables_def report_spec_def crop_blocks_def Let_def)

lemma report_spec_table_grids:
  "list_all (\<lambda>t. tbl_grid t = replicate 9 (if py_upper orientation = ''LANDSCAPE'' then Inches_1 else 660400))
     (doc_tables (report_spec data orientation logo_path now))"
  by (auto simp: doc_tables_report_spec list_all_iff table_spec_def text_width_def setup_section_def
                 default_section_def Let_def Inches_1_def split: prod.splits)

lemma build_document_cases:
  "build_document data orientation logo_path files now =
     (case files logo_path of
        None \<Rightarrow> Inl (FileNotFound logo_path)
      | Some ImageFile \<Rightarrow> Inr (report_spec data orientation logo_path now)
      | Some _ \<Rightarrow> Inl (UnrecognizedImage logo_path))"
proof (cases "files logo_path")
  case None
  then show ?thesis by (simp add: build_document_def logo_paragraph_def)
next
  case (Some f)
  then show ?thesis
    by (cases f) (simp_all add: build_document_spec, simp_all add: build_document_def logo_paragraph_def)
qed

lemma create_report_Inr:
  "fst (create_report tp output_path orientation logo_path w) = Inr u \<longleftrightarrow>
     db_accepts (w_db w) DB_CONFIG \<and> db_schema_ok (w_db w) \<and>
     w_files w logo_path = Some ImageFile \<and> w_writable w output_path"
  by (auto simp: create_report_def save_def Let_def fetch_data_def build_document_cases
      split: prod.splits sum.splits if_splits option.splits fs_entry.splits)

lemma doc_headings_report_spec:
  "doc_headings (report_spec data orientation logo_path now) = map (\<lambda>(c, st). py_upper c) data"
  by (induction data)
     (auto simp: doc_headings_def report_spec_def crop_blocks_def Let_def logo_spec_def title_spec_def
       subtitle_spec_def spacer_def hr_paragraph_def heading_paragraph_def crop_heading_def
       append_item_def new_paragraph_def new_run_def)

lemma report_spec_crop_tables:
  "zip (doc_headings (report_spec data orientation logo_path now)) (doc_tables (report_spec data orientation logo_path now)) =
     map (\<lambda>(c, st). (py_upper c, table_spec (text_width (setup_section orientation default_section)) st)) data"
  by (induction data) (auto simp: doc_headings_report_spec doc_tables_report_spec)

lemma para_text_crop_heading [simp]: "para_text (crop_heading c) = py_upper c"
  by (simp add: para_text_def runs_def crop_heading_def append_item_def new_paragraph_def new_run_def)

lemma read_crops_blocks:
  "read_crops (concat (map (\<lambda>(c, st). crop_blocks bw c st) data)) =
     Some (map (\<lambda>(c, st). (py_upper c, map (\<lambda>(s, ys). state_cells s ys) st)) data)"
  by (induction data) (auto simp: crop_blocks_def table_spec_def)

lemma read_report_spec:
  "read_report (report_spec data orientation logo_path now) =
     Some (map (\<lambda>(c, st). (py_upper c, map (\<lambda>(s, ys). state_cells s ys) st)) data)"
  by (simp add: read_report_def report_spec_def read_crops_blocks Let_def)

lemma create_report_success_env:
  assumes "fst (create_report tp output_path orientation logo_path w) = Inr u"
  shows "db_accepts (w_db w) DB_CONFIG" and "db_schema_ok (w_db w)"
    and "w_files w logo_path = Some ImageFile" and "w_writable w output_path"
  using assms by (simp_all add: create_report_Inr)

lemma create_report_files:
  assumes "fst (create_report tp output_path orientation logo_path w) = Inr u"
  shows "w_files (snd (create_report tp output_path orientation logo_path w)) =
           (w_files w)(output_path \<mapsto>
              DocxFile (report_spec (pivot [] (db_answer (w_db w))) orientation logo_path (w_now w)))"
  using create_report_success_env [OF assms]
  by (simp add: create_report_def fetch_data_def build_document_cases save_def Let_def)

section \<open>Properties of the renderer\<close>

text \<open>
  C1. A successful run writes exactly the promised document: the output file holds
  \<open>report_spec\<close> of the pivoted query result, the orientation, the logo and the clock;
  the confirmation line is printed; nothing else of the world changes (the database handles
  are back as they were).
\<close>

theorem create_report_writes_report:
  assumes "fst (create_report tp output_path orientation logo_path w) = Inr u"
  shows "snd (create_report tp output_path orientation logo_path w) =
           w\<lparr>w_files := (w_files w)(output_path \<mapsto>
                DocxFile (report_spec (pivot [] (db_answer (w_db w))) orientation logo_path (w_now w))),
             w_stdout := w_stdout w @ [report_message output_path]\<rparr>"
  using create_report_success_env [OF assms]
  by (simp add: create_report_def fetch_data_def build_document_cases save_def Let_def)

text \<open>
  C6. Each state's row is read from the composite-key table: the state's name, then for each
  of the eight (year, method) columns the text of the value stored under
  (crop, state, year, method), or the empty string where there is none.
\<close>

theorem state_row_from_table:
  assumes "map_of data c = Some states" and "map_of states s = Some years"
  shows "state_cells s years =
           s # map (\<lambda>(y, m). case table_lookup data (c, s, y, m) of None \<Rightarrow> '''' | Some v \<Rightarrow> py_str v)
                   report_columns"
  using assms by (simp add: state_cells_def report_columns_def cell_text_table_lookup)

text \<open>
  C7. A NULL yield is not rendered blank: a row whose value is SQL NULL (Python \<open>None\<close>)
  shows the text \<open>None\<close> in its cell, e.g. the 2023-24 MoA\&FW column.
\<close>

theorem null_yield_renders_None:
  assumes "map_of data c = Some states" and "map_of states s = Some years"
    and "table_lookup data (c, s, 2023, ''MoA&FW'') = Some PyNone"
  shows "state_cells s years ! 7 = ''None''"
  using assms by (simp add: state_cells_def cell_text_table_lookup)


text \<open>
  C9. A missing logo aborts the run with \<open>FileNotFoundError\<close> after the data is loaded
  and before anything is written: the world is left as it was, the database handles closed.
\<close>

theorem create_report_missing_logo:
  assumes "db_accepts (w_db w) DB_CONFIG" and "db_schema_ok (w_db w)" and "w_files w logo_path = None"
  shows "create_report tp output_path orientation logo_path w = (Inl (FileNotFound logo_path), w)"
  using assms by (simp add: create_report_def fetch_data_def build_document_cases Let_def)

text \<open>
  C10. Orientation: in the written document every section (there is one) has its page wider
  than tall exactly when the orientation argument is \<open>LANDSCAPE\<close> in any letter case,
  is marked landscape exactly then, and has all four margins at one inch. The tables are
  added after the page setup, so every table's nine grid columns share the width between the
  margins: one inch each on a landscape page, 0.72 inch (660400 EMU) on a portrait one.
\<close>

theorem report_orientation:
  assumes "fst (create_report tp output_path orientation logo_path w) = Inr u"
  shows "\<exists>d. w_files (snd (create_report tp output_path orientation logo_path w)) output_path =
               Some (DocxFile d) \<and> doc_sections d \<noteq> [] \<and>
             list_all (\<lambda>s. (sec_page_height s < sec_page_width s \<longleftrightarrow> py_upper orientation = ''LANDSCAPE'') \<and>
                           (sec_orientation s = LANDSCAPE \<longleftrightarrow> py_upper orientation = ''LANDSCAPE'') \<and>
                           sec_top_margin s = Inches_1 \<and> sec_bottom_margin s = Inches_1 \<and>
                           sec_left_margin s = Inches_1 \<and> sec_right_margin s = Inches_1)
               (doc_sections d) \<and>
             list_all (\<lambda>t. tbl_grid t =
                             replicate 9 (if py_upper orientation = ''LANDSCAPE'' then Inches_1 else 660400))
               (doc_tables d)"
  using assms report_spec_sections report_spec_table_grids
  by (simp add: create_report_files doc_sections_report_spec)

text \<open>
  C11. The footer: the document's one section has exactly one footer paragraph, centred,
  holding the copyright line with the run's date as \<open>DD-MM-YYYY\<close>, then a
  \<open>PAGE\<close> field.
\<close>

theorem report_footer:
  assumes "fst (create_report tp output_path orientation logo_path w) = Inr u"
  shows "\<exists>d. w_files (snd (create_report tp output_path orientation logo_path w)) output_path =
               Some (DocxFile d) \<and>
             map sec_footer (doc_sections d) =
               [[\<lparr>p_align = Some CENTER,
                  p_items = [PRun (new_run (copyright_text @ ''Date: '' @ strftime_dmy (w_now w) @ '' | '')),
                             PFldSimple ''PAGE'' [new_run ''Page '']],
                  p_bottom_border = None\<rparr>]]"
  using assms
  by (simp add: create_report_files doc_sections_report_spec footer_spec_def footer_run_def page_field_def)

text \<open>
  C17. Every crop's table is built without an index error and has the shape the template
  promises: style \<open>Table Grid\<close>, nine grid columns sharing the block width equally,
  the two header rows then one row per state, nine cells in every row.
\<close>

theorem crop_table_shape:
  "\<exists>t. crop_table bw states = Some t \<and> tbl_style t = Some ''Table Grid'' \<and>
       tbl_grid t = replicate 9 (bw div 9) \<and>
       length (tbl_rows t) = 2 + length states \<and> list_all (\<lambda>row. length row = 9) (tbl_rows t) \<and>
       take 2 (tbl_rows t) = [headers, sub_headers]"
  by (auto simp: crop_table_Some table_spec_def list_all_iff headers_def sub_headers_def)



text \<open>
  C31. Loader and renderer together: when the rows have distinct keys and the run succeeds,
  each row whose (year, method) is one of the eight report columns shows up in the written
  document. Its value's text sits in the table that follows its crop's heading, in the row
  that starts with its state, in the cell of that column.
\<close>

theorem report_cell_of_row:
  assumes ok: "fst (create_report tp output_path orientation logo_path w) = Inr u"
    and dist: "distinct (map row_key (db_answer (w_db w)))"
    and r: "(c, s, y, m, v) \<in> set (db_answer (w_db w))"
    and col: "j < length report_columns" "report_columns ! j = (y, m)"
  shows "\<exists>d. w_files (snd (create_report tp output_path orientation logo_path w)) output_path =
               Some (DocxFile d) \<and>
             (\<exists>(h, t) \<in> set (zip (doc_headings d) (doc_tables d)). h = py_upper c \<and>
                (\<exists>cells \<in> set (drop 2 (tbl_rows t)). cells ! 0 = s \<and> cells ! Suc j = py_str v))"
proof -
  let ?data = "pivot [] (db_answer (w_db w))"
  have v: "table_lookup ?data (c, s, y, m) = Some v"
    using pivot_no_loss [OF dist r] by simp
  then obtain states years where st: "map_of ?data c = Some states" and ys: "map_of states s = Some years"
    by (rule table_lookup_SomeD)
  have cells: "state_cells s years ! 0 = s" "state_cells s years ! Suc j = py_str v"
    using state_cells_lookup [OF st ys] col v by simp_all
  let ?d = "report_spec ?data orientation logo_path (w_now w)"
  have saved: "w_files (snd (create_report tp output_path orientation logo_path w)) output_path =
                Some (DocxFile ?d)"
    using create_report_files [OF ok] by simp
  let ?bw = "text_width (setup_section orientation default_section)"
  have "(py_upper c, table_spec ?bw states) \<in> set (map (\<lambda>(c, st). (py_upper c, table_spec ?bw st)) ?data)"
    using map_of_SomeD [OF st] by force
  then have mem: "(py_upper c, table_spec ?bw states) \<in> set (zip (doc_headings ?d) (doc_tables ?d))"
    by (simp only: report_spec_crop_tables)
  have row: "state_cells s years \<in> set (drop 2 (tbl_rows (table_spec ?bw states)))"
    using map_of_SomeD [OF ys] by (force simp: table_spec_def)
  have "\<exists>(h, t) \<in> set (zip (doc_headings ?d) (doc_tables ?d)). h = py_upper c \<and>
          (\<exists>cells \<in> set (drop 2 (tbl_rows t)). cells ! 0 = s \<and> cells ! Suc j = py_str v)"
    using row cells by (intro bexI [OF _ mem]) auto
  with saved show ?thesis by blast
qed




text \<open>
  C37. A special numeric yield shows as a word. When the table stores a NaN or an infinite
  Decimal, which a PostgreSQL \<open>numeric\<close> column can hold, the cell's text is
  \<open>Decimal.__str__\<close>'s word for it (\<open>NaN\<close>, \<open>Infinity\<close>, \<open>-Infinity\<close>), and it
  is not a numeral.
\<close>

theorem special_yield_renders_word:
  assumes "map_of years y = Some ms" and "map_of ms m = Some (PyDecimalSpecial neg k)"
  shows "cell_text years y m = special_str neg k \<and>
         \<not> set (cell_text years y m) \<subseteq> dec_digits \<union> {CHR ''+'', CHR ''-'', CHR ''.'', CHR ''E''}"
proof -
  have t: "cell_text years y m = special_str neg k"
    using assms by (simp add: cell_text_lookup)
  have "\<exists>c \<in> set (special_str neg k). c \<in> {CHR ''I'', CHR ''N'', CHR ''s''}"
    by (cases k) (auto simp: special_str_def)
  moreover have "CHR ''I'' \<notin> dec_digits" "CHR ''N'' \<notin> dec_digits" "CHR ''s'' \<notin> dec_digits"
    by (simp_all add: dec_digits_def)
  ultimately show ?thesis using t by auto
qed


text \<open>
  C38. An empty query result still gives a report: when the server returns no rows and the
  run succeeds, the written document holds the six header blocks and no crop section or
  table.
\<close>

theorem report_empty_result:
  assumes "fst (create_report tp output_path orientation logo_path w) = Inr u"
    and "db_answer (w_db w) = []"
  shows "\<exists>d. w_files (snd (create_report tp output_path orientation logo_path w)) output_path =
               Some (DocxFile d) \<and> length (doc_body d) = 6 \<and> doc_tables d = [] \<and> doc_sections d \<noteq> []"
  using create_report_files [OF assms(1)] assms(2)
  by (simp add: report_spec_def doc_tables_def)

text \<open>
  C40. The written report reads back. Reading the saved document gives, for each crop in the
  table's order, its upper-cased name and one row per state: the state and its eight cell
  texts. The document's layout of heading, table and spacer per crop is what the reader
  expects.
\<close>

theorem report_reads_back:
  assumes "fst (create_report tp output_path orientation logo_path w) = Inr u"
  shows "\<exists>d. w_files (snd (create_report tp output_path orientation logo_path w)) output_path =
               Some (DocxFile d) \<and>
             read_report d = Some (map (\<lambda>(c, st). (py_upper c, map (\<lambda>(s, ys). state_cells s ys) st))
                                       (pivot [] (db_answer (w_db w))))"
  using create_report_files [OF assms] by (simp add: read_report_spec)

end
