(* ===== verification/Cli.thy ===== *)
theory Cli
  imports Renderer
begin

text \<open>
  The command line, \<open>__main__\<close> of \<open>src/gen_report.py\<close> (lines 141--149): the four
  options declared with argparse and the call of \<open>create_report\<close>. The parser is
  argparse's behaviour on these declarations (CPython 3.12), for the features the
  declarations use. Every argument is first classified, as \<open>_parse_optional\<close> does
  before anything is consumed: an exact option string, \<open>--opt=value\<close>, an unambiguous
  prefix of a long option, a short option with its value attached (\<open>-tVALUE\<close>), a
  negative number or a string with a space (a positional), or an unknown option. Then the
  arguments are consumed left to right. An option takes the next argument unless that
  argument is option-like. \<open>--format\<close> checks its choices. Later occurrences override
  earlier ones. After the arguments, the required options are checked, and then the
  unrecognised arguments (there is no positional parameter). The first \<open>--\<close> makes every
  later argument positional. An option's value cannot be the \<open>--\<close>, and a \<open>--\<close> that
  no option consumes is unrecognised. Characters attached to \<open>-h\<close> chain into further
  short options (\<open>-htx\<close>). The consumption follows \<open>consume_optional\<close> of CPython
  3.12.0; later 3.12 releases reject an explicit \<open>=\<close> argument on a chained flag. Not
  modelled: the text of the help and usage messages.
\<close>

section \<open>The declared options\<close>

datatype cli_opt = OptHelp | OptTemplate | OptOutput | OptFormat | OptLogo

text \<open>
  \<open>ArgumentParser\<close> adds \<open>-h/--help\<close> first, then the four \<open>add_argument\<close> calls
  in order.
\<close>

definition option_strings :: "(string \<times> cli_opt) list" where
  "option_strings =
     [(''-h'', OptHelp), (''--help'', OptHelp), (''-t'', OptTemplate), (''--template'', OptTemplate),
      (''-o'', OptOutput), (''--output'', OptOutput), (''-f'', OptFormat), (''--format'', OptFormat),
      (''-l'', OptLogo), (''--logo'', OptLogo)]"

definition required_opts :: "cli_opt list" where
  "required_opts = [OptTemplate, OptOutput, OptLogo]"

definition format_choices :: "string list" where
  "format_choices = [''LANDSCAPE'', ''PORTRAIT'']"

definition format_default :: string where
  "format_default = ''PORTRAIT''"

record cli_args =
  a_template :: string
  a_output :: string
  a_format :: string
  a_logo :: string

datatype cli_error =
    Ambiguous string
  | ExpectedOneArgument cli_opt
  | InvalidChoice string
  | IgnoredExplicitArgument string
  | RequiredMissing "cli_opt list"
  | Unrecognized "string list"

datatype cli_outcome = CliHelp | CliError cli_error | CliArgs cli_args

section \<open>Classifying an argument\<close>

datatype token =
    TArg string
  | TOpt cli_opt string "string option"
    \<comment> \<open>an option, the option string argparse records for it, and its explicit argument
       (\<open>=value\<close> or attached)\<close>
  | TUnknown string
  | TDashDash
    \<comment> \<open>the first \<open>--\<close>, pattern \<open>'-'\<close>\<close>

definition is_digit :: "char \<Rightarrow> bool" where
  "is_digit c \<longleftrightarrow> CHR ''0'' \<le> c \<and> c \<le> CHR ''9''"

text \<open>\<open>_negative_number_matcher\<close>: \<open>^-\d+$|^-\d*\.\d+$\<close>.\<close>

fun negative_number :: "string \<Rightarrow> bool" where
  "negative_number (c # r) =
     (c = CHR ''-'' \<and>
      ((r \<noteq> [] \<and> list_all is_digit r) \<or>
       (list_all is_digit (takeWhile (\<lambda>x. x \<noteq> CHR ''.'') r) \<and>
        (case dropWhile (\<lambda>x. x \<noteq> CHR ''.'') r of
           [] \<Rightarrow> False
         | _ # q \<Rightarrow> q \<noteq> [] \<and> list_all is_digit q))))"
| "negative_number [] = False"

text \<open>
  \<open>_get_option_tuples\<close>: for \<open>--prefix[=value]\<close> every long option the prefix starts;
  for \<open>-xrest\<close> the short option \<open>-x\<close> with \<open>rest\<close> attached, or an option that
  starts with the whole argument.
\<close>

definition option_tuples :: "string \<Rightarrow> token list" where
  "option_tuples a =
     (if take 2 a = ''--'' then
        (let prefix = takeWhile (\<lambda>c. c \<noteq> CHR ''='') a;
             explicit = (case dropWhile (\<lambda>c. c \<noteq> CHR ''='') a of [] \<Rightarrow> None | _ # v \<Rightarrow> Some v)
         in [TOpt opt s explicit. (s, opt) \<leftarrow> option_strings, take (length prefix) s = prefix])
      else
        [(if s = take 2 a then TOpt opt s (Some (drop 2 a)) else TOpt opt s None).
           (s, opt) \<leftarrow> option_strings, s = take 2 a \<or> take (length a) s = a])"

text \<open>\<open>_parse_optional\<close>, with its error for an ambiguous prefix.\<close>

definition classify :: "string \<Rightarrow> cli_error + token" where
  "classify a =
     (case a of
        [] \<Rightarrow> Inr (TArg a)
      | c # _ \<Rightarrow>
          if c \<noteq> CHR ''-'' then Inr (TArg a)
          else case map_of option_strings a of
            Some opt \<Rightarrow> Inr (TOpt opt a None)
          | None \<Rightarrow>
              if length a = 1 then Inr (TArg a)
              else case (map_of option_strings (takeWhile (\<lambda>c. c \<noteq> CHR ''='') a),
                         dropWhile (\<lambda>c. c \<noteq> CHR ''='') a) of
                (Some opt, _ # v) \<Rightarrow> Inr (TOpt opt (takeWhile (\<lambda>c. c \<noteq> CHR ''='') a) (Some v))
              | _ \<Rightarrow>
                  (case option_tuples a of
                     [t] \<Rightarrow> Inr t
                   | _ # _ # _ \<Rightarrow> Inl (Ambiguous a)
                   | [] \<Rightarrow>
                       if negative_number a then Inr (TArg a)
                       else if CHR '' '' \<in> set a then Inr (TArg a)
                       else Inr (TUnknown a)))"

text \<open>
  Classification of the whole command line: the first \<open>--\<close> is itself marked and makes
  every later argument positional.
\<close>

fun classify_all :: "string list \<Rightarrow> cli_error + token list" where
  "classify_all [] = Inr []"
| "classify_all (a # as) =
     (if a = ''--'' then Inr (TDashDash # map TArg as)
      else case classify a of
        Inl e \<Rightarrow> Inl e
      | Inr t \<Rightarrow> (case classify_all as of Inl e \<Rightarrow> Inl e | Inr ts \<Rightarrow> Inr (t # ts)))"

section \<open>Consuming the arguments\<close>

record cli_state =
  seen :: "cli_opt \<Rightarrow> string option"
  extras :: "string list"

text \<open>\<open>take_action\<close> for a store action: the choices check, then \<open>setattr\<close>.\<close>

definition store :: "cli_opt \<Rightarrow> string \<Rightarrow> cli_state \<Rightarrow> cli_error + cli_state" where
  "store opt v st =
     (if opt = OptFormat \<and> v \<notin> set format_choices then Inl (InvalidChoice v)
      else Inr (st\<lparr>seen := (seen st)(opt \<mapsto> v)\<rparr>))"

text \<open>
  \<open>-h\<close> with characters attached (\<open>consume_optional\<close>'s loop for a single-dash action
  that takes no argument). Each next character names a short option. An unknown one is an
  ignored explicit argument. Another \<open>-h\<close> continues the chain. An option that takes a value
  ends it, with the rest of the characters as its value, or with the next argument when
  nothing is left, which must then be a positional. The actions then run in order, and the
  first is the help.
\<close>

fun help_chain :: "string \<Rightarrow> token list \<Rightarrow> cli_error + cli_state + unit" where
  "help_chain [] ts = Inr (Inr ())"
| "help_chain (c # rest) ts =
     (case map_of option_strings [CHR ''-'', c] of
        None \<Rightarrow> Inl (IgnoredExplicitArgument (c # rest))
      | Some OptHelp \<Rightarrow> (if rest = [] then Inr (Inr ()) else help_chain rest ts)
      | Some opt \<Rightarrow>
          (if rest \<noteq> [] then Inr (Inr ())
           else case ts of TArg _ # _ \<Rightarrow> Inr (Inr ()) | _ \<Rightarrow> Inl (ExpectedOneArgument opt)))"

text \<open>
  The left-to-right consumption. An option's value pattern \<open>A\<close> admits no \<open>--\<close>, and a
  \<open>--\<close> no option consumes is an unrecognised argument. A long option string (\<open>--help\<close>
  or one of its prefixes), or an empty attached value, cannot carry an argument for the
  help.
\<close>

fun consume :: "token list \<Rightarrow> cli_state \<Rightarrow> cli_error + cli_state + unit" where
  "consume [] st = Inr (Inl st)"
| "consume (TArg a # ts) st = consume ts (st\<lparr>extras := extras st @ [a]\<rparr>)"
| "consume (TUnknown a # ts) st = consume ts (st\<lparr>extras := extras st @ [a]\<rparr>)"
| "consume (TDashDash # ts) st = consume ts (st\<lparr>extras := extras st @ [''--'']\<rparr>)"
| "consume (TOpt OptHelp s None # ts) st = Inr (Inr ())"
| "consume (TOpt OptHelp s (Some v) # ts) st =
     (if take 2 s = ''--'' \<or> v = [] then Inl (IgnoredExplicitArgument v) else help_chain v ts)"
| "consume (TOpt opt s (Some v) # ts) st =
     (case store opt v st of Inl e \<Rightarrow> Inl e | Inr st' \<Rightarrow> consume ts st')"
| "consume (TOpt opt s None # TArg v # ts) st =
     (case store opt v st of Inl e \<Rightarrow> Inl e | Inr st' \<Rightarrow> consume ts st')"
| "consume (TOpt opt s None # ts) st = Inl (ExpectedOneArgument opt)"

text \<open>
  \<open>parse_args\<close>: classify, consume, then the required check, the defaults and the
  unrecognised arguments.
\<close>

definition parse_args :: "string list \<Rightarrow> cli_outcome" where
  "parse_args argv =
     (case classify_all argv of
        Inl e \<Rightarrow> CliError e
      | Inr ts \<Rightarrow>
          (case consume ts \<lparr>seen = Map.empty, extras = []\<rparr> of
             Inl e \<Rightarrow> CliError e
           | Inr (Inr _) \<Rightarrow> CliHelp
           | Inr (Inl st) \<Rightarrow>
               (let missing = filter (\<lambda>opt. seen st opt = None) required_opts
                in if missing \<noteq> [] then CliError (RequiredMissing missing)
                   else if extras st \<noteq> [] then CliError (Unrecognized (extras st))
                   else (case (seen st OptTemplate, seen st OptOutput, seen st OptLogo) of
                           (Some t, Some out, Some l) \<Rightarrow>
                             CliArgs \<lparr>a_template = t, a_output = out,
                                      a_format = (case seen st OptFormat of None \<Rightarrow> format_default | Some f \<Rightarrow> f),
                                      a_logo = l\<rparr>
                         | _ \<Rightarrow> CliError (RequiredMissing required_opts)))))"

text \<open>The stored format, if any, is one of the choices.\<close>

definition fmt_ok :: "cli_state \<Rightarrow> bool" where
  "fmt_ok st \<longleftrightarrow> (case seen st OptFormat of None \<Rightarrow> True | Some f \<Rightarrow> f \<in> set format_choices)"

section \<open>main\<close>

text \<open>
  What a run ends with: the help printed (exit 0), a usage error (exit 2), an uncaught
  exception of \<open>create_report\<close> (exit 1), or the report written (exit 0).
\<close>

datatype main_outcome = ShowedHelp | UsageError cli_error | Crashed report_error | Completed

fun exit_status :: "main_outcome \<Rightarrow> nat" where
  "exit_status ShowedHelp = 0"
| "exit_status (UsageError _) = 2"
| "exit_status (Crashed _) = 1"
| "exit_status Completed = 0"

definition main :: "string list \<Rightarrow> world \<Rightarrow> main_outcome \<times> world" where
  "main argv w =
     (case parse_args argv of
        CliHelp \<Rightarrow> (ShowedHelp, w)
      | CliError e \<Rightarrow> (UsageError e, w)
      | CliArgs args \<Rightarrow>
          (case create_report (a_template args) (a_output args) (a_format args) (a_logo args) w of
             (Inl e, w') \<Rightarrow> (Crashed e, w')
           | (Inr _, w') \<Rightarrow> (Completed, w')))"

section \<open>Classification of the option strings\<close>

lemma option_strings_shape_all:
  "list_all (\<lambda>(s, _). CHR ''='' \<notin> set s \<and> take 1 s = ''-'' \<and> 2 \<le> length s) option_strings"
  unfolding option_strings_def by simp

lemma option_strings_shape:
  assumes "map_of option_strings s = Some opt"
  shows "CHR ''='' \<notin> set s" and "take 1 s = ''-''" and "2 \<le> length s"
  using option_strings_shape_all map_of_SomeD [OF assms] by (auto simp: list_all_iff)

lemma map_of_option_strings_eq:
  "CHR ''='' \<in> set a \<Longrightarrow> map_of option_strings a = None"
  by (metis option_strings_shape(1) option.exhaust)

lemma classify_plain:
  "take 1 x \<noteq> ''-'' \<Longrightarrow> classify x = Inr (TArg x)"
  by (cases x) (auto simp: classify_def)

lemma classify_exact:
  assumes "map_of option_strings s = Some opt"
  shows "classify s = Inr (TOpt opt s None)"
proof -
  obtain r where "s = CHR ''-'' # r"
    using option_strings_shape(2) [OF assms] by (cases s) auto
  then show ?thesis using assms by (simp add: classify_def)
qed

lemma classify_explicit:
  assumes m: "map_of option_strings s = Some opt"
  shows "classify (s @ CHR ''='' # v) = Inr (TOpt opt s (Some v))"
proof -
  obtain r where s: "s = CHR ''-'' # r"
    using option_strings_shape(2) [OF m] by (cases s) auto
  have eq: "CHR ''='' \<notin> set s" and len: "2 \<le> length s"
    using option_strings_shape [OF m] by auto
  have none: "map_of option_strings (s @ CHR ''='' # v) = None"
    by (rule map_of_option_strings_eq) simp
  have tw: "takeWhile (\<lambda>c. c \<noteq> CHR ''='') (s @ CHR ''='' # v) = s"
    using eq by (subst takeWhile_append2) auto
  have dw: "dropWhile (\<lambda>c. c \<noteq> CHR ''='') (s @ CHR ''='' # v) = CHR ''='' # v"
    using eq by (subst dropWhile_append2) auto
  show ?thesis using s none tw dw m len by (simp add: classify_def)
qed

lemma plain_not_dashdash: "take 1 x \<noteq> ''-'' \<Longrightarrow> x \<noteq> ''--''"
  by auto

lemma store_fmt_ok: "store opt v st = Inr st' \<Longrightarrow> fmt_ok st \<Longrightarrow> fmt_ok st'"
  by (auto simp: store_def fmt_ok_def split: if_splits)

lemma fmt_ok_extras [simp]: "fmt_ok (st\<lparr>extras := x\<rparr>) = fmt_ok st"
  by (simp add: fmt_ok_def)

lemma help_chain_no_state [simp]: "help_chain v ts \<noteq> Inr (Inl st)"
  by (induction v ts rule: help_chain.induct)
     (auto split: option.splits cli_opt.splits token.splits list.splits)

lemma consume_fmt_ok: "consume ts st = Inr (Inl st') \<Longrightarrow> fmt_ok st \<Longrightarrow> fmt_ok st'"
  by (induction ts st rule: consume.induct) (auto split: sum.splits if_splits dest: store_fmt_ok)

lemma parse_args_format:
  assumes "parse_args argv = CliArgs a"
  shows "a_format a \<in> set format_choices"
proof -
  obtain ts st where c: "classify_all argv = Inr ts" and
      s: "consume ts \<lparr>seen = Map.empty, extras = []\<rparr> = Inr (Inl st)"
    using assms by (auto simp: parse_args_def split: sum.splits unit.splits)
  have "fmt_ok st" by (rule consume_fmt_ok [OF s]) (simp add: fmt_ok_def)
  then show ?thesis using assms c s
    by (auto simp: parse_args_def fmt_ok_def format_default_def format_choices_def Let_def
             split: option.splits if_splits)
qed

lemma report_spec_page_shape:
  "list_all (\<lambda>s. if py_upper orientation = ''LANDSCAPE'' then sec_page_height s < sec_page_width s
                  else sec_page_width s < sec_page_height s)
     (doc_sections (report_spec data orientation logo_path now))"
  by (simp add: doc_sections_report_spec setup_section_def default_section_def Let_def)

lemma classify_long_forms:
  "classify (''--template='' @ t) = Inr (TOpt OptTemplate ''--template'' (Some t))"
  "classify (''--output='' @ out) = Inr (TOpt OptOutput ''--output'' (Some out))"
  "classify (''--format='' @ f) = Inr (TOpt OptFormat ''--format'' (Some f))"
  "classify (''--logo='' @ l) = Inr (TOpt OptLogo ''--logo'' (Some l))"
  using classify_explicit [of "''--template''" OptTemplate t] classify_explicit [of "''--output''" OptOutput out]
    classify_explicit [of "''--format''" OptFormat f] classify_explicit [of "''--logo''" OptLogo l]
  by (simp_all add: option_strings_def)

lemma classify_short_opts:
  "classify ''-h'' = Inr (TOpt OptHelp ''-h'' None)"
  "classify ''-t'' = Inr (TOpt OptTemplate ''-t'' None)"
  "classify ''-o'' = Inr (TOpt OptOutput ''-o'' None)"
  "classify ''-f'' = Inr (TOpt OptFormat ''-f'' None)"
  "classify ''-l'' = Inr (TOpt OptLogo ''-l'' None)"
  by (simp_all add: classify_exact option_strings_def)

lemma long_prefixes_classify:
  "list_all (\<lambda>(name, opt). list_all (\<lambda>n. classify (''--'' @ take n name) = Inr (TOpt opt (''--'' @ name) None)) [1..<Suc (length name)])
     [(''help'', OptHelp), (''template'', OptTemplate), (''output'', OptOutput), (''format'', OptFormat), (''logo'', OptLogo)]"
  by code_simp

lemma long_option_names:
  "(''--'' @ name, opt) \<in> set option_strings \<longleftrightarrow>
   (name, opt) \<in> set [(''help'', OptHelp), (''template'', OptTemplate), (''output'', OptOutput), (''format'', OptFormat), (''logo'', OptLogo)]"
  by (auto simp: option_strings_def)

lemma nonempty_prefix_take:
  assumes "p \<noteq> []" and "take (length p) name = p"
  shows "\<exists>n \<in> set [1..<Suc (length name)]. p = take n name"
proof -
  have "length (take (length p) name) = length p" using assms(2) by simp
  then have "length p \<le> length name" by simp
  moreover have "1 \<le> length p" using assms(1) by (cases p) auto
  ultimately have "length p \<in> set [1..<Suc (length name)]" by auto
  moreover have "p = take (length p) name" using assms(2) by (rule sym)
  ultimately show ?thesis by blast
qed

lemma classify_long_prefix:
  assumes "(''--'' @ name, opt) \<in> set option_strings" and "p \<noteq> []" and "take (length p) name = p"
  shows "classify (''--'' @ p) = Inr (TOpt opt (''--'' @ name) None)"
proof -
  obtain n where n: "n \<in> set [1..<Suc (length name)]" and p: "p = take n name"
    using nonempty_prefix_take [OF assms(2,3)] by blast
  have "(name, opt) \<in> set [(''help'', OptHelp), (''template'', OptTemplate), (''output'', OptOutput), (''format'', OptFormat), (''logo'', OptLogo)]"
    using assms(1) long_option_names by blast
  then show ?thesis
    using long_prefixes_classify n p by (auto simp: list_all_iff)
qed

lemma classify_attached:
  assumes "v \<noteq> []" and "take 1 v \<noteq> ''=''"
  shows "classify (''-t'' @ v) = Inr (TOpt OptTemplate ''-t'' (Some v))"
    and "classify (''-o'' @ v) = Inr (TOpt OptOutput ''-o'' (Some v))"
    and "classify (''-f'' @ v) = Inr (TOpt OptFormat ''-f'' (Some v))"
    and "classify (''-l'' @ v) = Inr (TOpt OptLogo ''-l'' (Some v))"
  using assms by (cases v; simp add: classify_def option_tuples_def option_strings_def)+

lemma classify_dash_eq:
  "classify (''--='' @ v) = Inl (Ambiguous (''--='' @ v))"
  by (simp add: classify_def option_tuples_def option_strings_def Let_def)

lemma py_upper_choice:
  assumes "f \<in> set format_choices"
  shows "py_upper f = ''LANDSCAPE'' \<longleftrightarrow> f = ''LANDSCAPE''"
proof -
  have "py_upper ''PORTRAIT'' = ''PORTRAIT''" "py_upper ''LANDSCAPE'' = ''LANDSCAPE''" by code_simp+
  then show ?thesis using assms by (auto simp: format_choices_def)
qed

lemma parse_args_main:
  assumes "parse_args argv = CliArgs a"
  shows "main argv w =
           (case create_report (a_template a) (a_output a) (a_format a) (a_logo a) w of
              (Inl e, w') \<Rightarrow> (Crashed e, w') | (Inr _, w') \<Rightarrow> (Completed, w'))"
  using assms by (simp add: main_def)

lemma main_completed:
  assumes p: "parse_args argv = CliArgs a" and c: "fst (main argv w) = Completed"
  shows "fst (create_report (a_template a) (a_output a) (a_format a) (a_logo a) w) = Inr ()"
    and "snd (main argv w) = snd (create_report (a_template a) (a_output a) (a_format a) (a_logo a) w)"
proof -
  let ?cr = "create_report (a_template a) (a_output a) (a_format a) (a_logo a) w"
  obtain r w2 where cr: "?cr = (r, w2)" by (cases ?cr)
  have m: "main argv w = (case r of Inl e \<Rightarrow> (Crashed e, w2) | Inr _ \<Rightarrow> (Completed, w2))"
    using parse_args_main [OF p, of w] cr by simp
  have r: "r = Inr ()"
    using c m by (cases r) auto
  show "fst ?cr = Inr ()" and "snd (main argv w) = snd ?cr"
    using m r cr by simp_all
qed


section \<open>Properties of the command line\<close>

text \<open>
  C21. The long form of the command line round-trips: with \<open>--template=T\<close>,
  \<open>--output=O\<close>, \<open>--format=F\<close> and \<open>--logo=L\<close>, where F is one of the two choices,
  the parsed namespace holds exactly T, O, F and L, whatever characters the values contain.
\<close>

theorem parse_args_long_form:
  assumes "f \<in> set format_choices"
  shows "parse_args [''--template='' @ t, ''--output='' @ out, ''--format='' @ f, ''--logo='' @ l] =
           CliArgs \<lparr>a_template = t, a_output = out, a_format = f, a_logo = l\<rparr>"
  using assms classify_long_forms
  by (simp add: parse_args_def store_def required_opts_def)

text \<open>
  C22. The short form without \<open>-f\<close>: \<open>-t T -o O -l L\<close>, where no value starts with a
  dash, parses to T, O and L, with the format defaulting to \<open>PORTRAIT\<close>.
\<close>

theorem parse_args_short_form:
  assumes "take 1 t \<noteq> ''-''" and "take 1 out \<noteq> ''-''" and "take 1 l \<noteq> ''-''"
  shows "parse_args [''-t'', t, ''-o'', out, ''-l'', l] =
           CliArgs \<lparr>a_template = t, a_output = out, a_format = format_default, a_logo = l\<rparr>"
  using assms classify_short_opts classify_plain plain_not_dashdash
  by (simp add: parse_args_def store_def required_opts_def)

text \<open>
  C23. A \<open>--format\<close> value outside the choices, \<open>landscape\<close> in lower case among them,
  is a usage error (exit status 2) raised before anything else runs: the world (database
  handles, files, standard output) is unchanged.
\<close>

theorem main_invalid_choice:
  assumes "f \<notin> set format_choices"
  shows "main [''--template='' @ t, ''--output='' @ out, ''--format='' @ f, ''--logo='' @ l] w =
           (UsageError (InvalidChoice f), w) \<and> exit_status (UsageError (InvalidChoice f)) = 2"
  using assms classify_long_forms
  by (simp add: main_def parse_args_def store_def)

text \<open>
  C24. A command line without the required \<open>--logo\<close> is a usage error naming it, with
  exit status 2 and the world unchanged.
\<close>

theorem main_missing_logo:
  assumes "take 1 t \<noteq> ''-''" and "take 1 out \<noteq> ''-''"
  shows "main [''-t'', t, ''-o'', out] w = (UsageError (RequiredMissing [OptLogo]), w) \<and>
         exit_status (fst (main [''-t'', t, ''-o'', out] w)) = 2"
  using assms classify_short_opts classify_plain plain_not_dashdash
  by (simp add: main_def parse_args_def store_def required_opts_def)

text \<open>
  C25. \<open>-h\<close> first prints the help without touching the world exactly when the rest of the
  line classifies. Whatever options, values or stray words follow is then irrelevant. The
  only way to miss the help is a classification error (an ambiguous \<open>--=v\<close>), which
  argparse raises before it consumes anything.
\<close>

theorem main_help:
  "main (''-h'' # argv) w = (ShowedHelp, w) \<longleftrightarrow> (\<exists>ts. classify_all argv = Inr ts)"
  using classify_short_opts
  by (cases "classify_all argv") (simp_all add: main_def parse_args_def)

text \<open>
  C26. The orientation flag reaches the page: when \<open>main\<close> completes, the written
  document's sections are all wider than high if \<open>--format\<close> was \<open>LANDSCAPE\<close> and
  all higher than wide otherwise (PORTRAIT given or defaulted).
\<close>

theorem main_page_orientation:
  assumes p: "parse_args argv = CliArgs a" and c: "fst (main argv w) = Completed"
  shows "\<exists>d. w_files (snd (main argv w)) (a_output a) = Some (DocxFile d) \<and> doc_sections d \<noteq> [] \<and>
             list_all (\<lambda>s. if a_format a = ''LANDSCAPE'' then sec_page_height s < sec_page_width s
                            else sec_page_width s < sec_page_height s) (doc_sections d)"
proof -
  note ok = main_completed(1) [OF p c] and w' = main_completed(2) [OF p c]
  have up: "py_upper (a_format a) = ''LANDSCAPE'' \<longleftrightarrow> a_format a = ''LANDSCAPE''"
    using py_upper_choice parse_args_format [OF p] by blast
  let ?d = "report_spec (pivot [] (db_answer (w_db w))) (a_format a) (a_logo a) (w_now w)"
  have "list_all (\<lambda>s. if a_format a = ''LANDSCAPE'' then sec_page_height s < sec_page_width s
                       else sec_page_width s < sec_page_height s) (doc_sections ?d)"
    using report_spec_page_shape [of "a_format a" "pivot [] (db_answer (w_db w))" "a_logo a" "w_now w"]
    unfolding up .
  moreover have "doc_sections ?d \<noteq> []"
    by (simp add: doc_sections_report_spec)
  ultimately show ?thesis
    using create_report_files [OF ok] w' by simp
qed

text \<open>
  C27. Long options may be abbreviated, as argparse allows by default: any non-empty
  prefix of \<open>template\<close>, \<open>output\<close> and \<open>logo\<close> after \<open>--\<close> selects that option
  (the long names start with different letters, so no prefix is ambiguous), and the values
  that follow are stored.
\<close>

theorem parse_args_abbreviated:
  assumes "p1 \<noteq> []" and "take (length p1) ''template'' = p1"
    and "p2 \<noteq> []" and "take (length p2) ''output'' = p2"
    and "p3 \<noteq> []" and "take (length p3) ''logo'' = p3"
    and "take 1 t \<noteq> ''-''" and "take 1 out \<noteq> ''-''" and "take 1 l \<noteq> ''-''"
  shows "parse_args [''--'' @ p1, t, ''--'' @ p2, out, ''--'' @ p3, l] =
           CliArgs \<lparr>a_template = t, a_output = out, a_format = format_default, a_logo = l\<rparr>"
proof -
  have "classify (''--'' @ p1) = Inr (TOpt OptTemplate ''--template'' None)"
       "classify (''--'' @ p2) = Inr (TOpt OptOutput ''--output'' None)"
       "classify (''--'' @ p3) = Inr (TOpt OptLogo ''--logo'' None)"
    using classify_long_prefix [of "''template''" OptTemplate p1] classify_long_prefix [of "''output''" OptOutput p2]
      classify_long_prefix [of "''logo''" OptLogo p3] assms(1-6)
    by (simp_all add: option_strings_def)
  moreover have "''--'' @ p1 \<noteq> ''--''" "''--'' @ p2 \<noteq> ''--''" "''--'' @ p3 \<noteq> ''--''"
    using assms(1,3,5) by simp_all
  ultimately show ?thesis using assms(7-9) classify_plain plain_not_dashdash
    by (simp add: parse_args_def store_def required_opts_def)
qed

text \<open>
  C28. A repeated option keeps its last value: \<open>--template\<close> given twice stores the
  second value, as each occurrence runs the store action again.
\<close>

theorem parse_args_last_wins:
  "parse_args [''--template='' @ t1, ''--template='' @ t2, ''--output='' @ out, ''--logo='' @ l] =
     CliArgs \<lparr>a_template = t2, a_output = out, a_format = format_default, a_logo = l\<rparr>"
  using classify_long_forms by (simp add: parse_args_def store_def required_opts_def)

text \<open>
  C32. Short options with the value attached: \<open>-tT -oO -lL\<close> parses to T, O and L with
  the default format, for non-empty values that do not start with \<open>=\<close> (argparse reads
  \<open>-t=x\<close> as the value \<open>x\<close>).
\<close>

theorem parse_args_attached:
  assumes "t \<noteq> []" and "take 1 t \<noteq> ''=''" and "out \<noteq> []" and "take 1 out \<noteq> ''=''"
    and "l \<noteq> []" and "take 1 l \<noteq> ''=''"
  shows "parse_args [''-t'' @ t, ''-o'' @ out, ''-l'' @ l] =
           CliArgs \<lparr>a_template = t, a_output = out, a_format = format_default, a_logo = l\<rparr>"
  using classify_attached [OF assms(1,2)] classify_attached [OF assms(3,4)] classify_attached [OF assms(5,6)]
  by (simp add: parse_args_def store_def required_opts_def)



text \<open>
  C39. A completed run does exactly what the program promises with the options it parsed:
  the output path holds \<open>report_spec\<close> of the pivoted query result under the parsed
  format and logo, the confirmation line is printed, and nothing else of the world changes.
\<close>

theorem main_writes_report:
  assumes p: "parse_args argv = CliArgs a" and c: "fst (main argv w) = Completed"
  shows "snd (main argv w) =
           w\<lparr>w_files := (w_files w)(a_output a \<mapsto>
                DocxFile (report_spec (pivot [] (db_answer (w_db w))) (a_format a) (a_logo a) (w_now w))),
             w_stdout := w_stdout w @ [report_message (a_output a)]\<rparr>"
proof -
  note ok = main_completed(1) [OF p c] and w' = main_completed(2) [OF p c]
  show ?thesis
    using create_report_success_env [OF ok] w'
    by (simp add: create_report_def fetch_data_def build_document_cases save_def Let_def)
qed

section \<open>Witnesses\<close>

theorem parse_args_long_form_witness:
  "''LANDSCAPE'' \<in> set format_choices \<and>
   parse_args [''--template=in.docx'', ''--output=out.docx'', ''--format=LANDSCAPE'', ''--logo=logo.png''] =
     CliArgs \<lparr>a_template = ''in.docx'', a_output = ''out.docx'', a_format = ''LANDSCAPE'', a_logo = ''logo.png''\<rparr>"
  using parse_args_long_form [of "''LANDSCAPE''" "''in.docx''" "''out.docx''" "''logo.png''"]
  by (simp add: format_choices_def)

theorem parse_args_short_form_witness:
  "parse_args [''-t'', ''in.docx'', ''-o'', ''out.docx'', ''-l'', ''logo.png''] =
     CliArgs \<lparr>a_template = ''in.docx'', a_output = ''out.docx'', a_format = ''PORTRAIT'', a_logo = ''logo.png''\<rparr>"
  using parse_args_short_form [of "''in.docx''" "''out.docx''" "''logo.png''"]
  by (simp add: format_default_def)

theorem parse_args_abbreviated_witness:
  "parse_args [''--temp'', ''in.docx'', ''--out'', ''out.docx'', ''--l'', ''logo.png''] =
     CliArgs \<lparr>a_template = ''in.docx'', a_output = ''out.docx'', a_format = ''PORTRAIT'', a_logo = ''logo.png''\<rparr>"
  using parse_args_abbreviated [of "''temp''" "''out''" "''l''" "''in.docx''" "''out.docx''" "''logo.png''"]
  by (simp add: format_default_def)

theorem parse_args_attached_witness:
  "parse_args [''-tin.docx'', ''-oout.docx'', ''-llogo.png''] =
     CliArgs \<lparr>a_template = ''in.docx'', a_output = ''out.docx'', a_format = ''PORTRAIT'', a_logo = ''logo.png''\<rparr>"
  using parse_args_attached [of "''in.docx''" "''out.docx''" "''logo.png''"]
  by (simp add: format_default_def)

end
