(* ===== verification/Spec2Isabelle.thy ===== *)
theory Spec2Isabelle
  imports Cli
begin

text \<open>
  \<^bold>\<open>Verification development of the crop-yield report generator\<close>
  (\<open>src/gen_report.py\<close>, the whole program).

  \<^bold>\<open>The program.\<close> One run does three things in order. The command line
  (\<open>__main__\<close>, lines 141--149) parses \<open>-t -o -f -l\<close> with argparse. The loader
  \<open>fetch_data\<close> (lines 19--34) connects to PostgreSQL with \<open>DB_CONFIG\<close>, runs one
  query joining \<open>crop_yields\<close>, \<open>crops\<close> and \<open>states\<close> ordered by crop, state,
  year and method, and pivots the rows into nested defaultdicts
  crop \<open>\<rightarrow>\<close> state \<open>\<rightarrow>\<close> year \<open>\<rightarrow>\<close> method \<open>\<rightarrow>\<close> value. The renderer
  \<open>create_report\<close> (lines 52--139, with \<open>add_footer\<close>, lines 36--50) sets up the page,
  writes a fixed header block and, for each crop in the table's order, a heading, a table of
  nine columns with one row per state and a spacer. It adds the footer, saves the document and
  prints a confirmation. The loader and the renderer share nothing but the table.

  \<^bold>\<open>The theories.\<close>
  \<^item> \<open>Prelude\<close>: type names (\<open>path\<close>, \<open>emu\<close>), the \<open>dict_simps\<close> and
    \<open>doc_simps\<close> collections, first-occurrence deduplication \<open>first_occ\<close> (the key
    order of a dict built by insertion) and sortedness lemmas.
  \<^item> \<open>PyDict\<close>: Python's insertion-ordered \<open>dict\<close> and \<open>defaultdict\<close> as
    association lists (\<open>dict_get\<close>, \<open>dict_set\<close>, \<open>dd_modify\<close>), with lookup-after-update
    and key-order lemmas, and the reference grouping \<open>group_with\<close> (a dict built by a
    group-by) with its snoc law against \<open>dd_modify\<close>.
  \<^item> \<open>PyStr\<close>: the values psycopg2 returns (\<open>pyval\<close>), \<open>str()\<close> on them
    including \<open>Decimal.__str__\<close> on every branch, ASCII \<open>str.upper\<close>, and
    \<open>strftime('%d-%m-%Y')\<close> with a reader for the format. The special Decimals
    (\<open>NaN\<close>, \<open>sNaN\<close>, \<open>Infinity\<close>) and their text (\<open>special_str\<close>). The numeral characters
    (\<open>dec_digits\<close>) and the values whose text is a numeral (\<open>numeral_val\<close>).
  \<^item> \<open>Loader\<close>: the tables, \<open>sql_join\<close> and the \<open>ORDER BY\<close> contract
    \<open>query_result\<close>, the loop \<open>pivot_row\<close>/\<open>pivot\<close>, the composite-key view
    \<open>table_lookup\<close>, the reference group-by \<open>group_table\<close>, the invariant
    \<open>table_wf\<close>, and \<open>fetch_data\<close> over the
    server (\<open>db_server\<close>) and the handles the process holds open (\<open>db_handles\<close>).
  \<^item> \<open>Docx\<close>: the python-docx calls the report makes, as a value model of runs,
    paragraphs (with the \<open>fldSimple\<close> element), tables with their grid column widths
    (\<open>new_table\<close> splits the document's \<open>block_width\<close> equally, as
    \<open>CT_Tbl.new_tbl\<close> does), sections and the document. Out-of-range indexing is
    \<open>None\<close>, Python's \<open>IndexError\<close>. The grid invariant \<open>table_rect\<close> and its
    preservation by each table operation.
  \<^item> \<open>Renderer\<close>: each statement group of \<open>create_report\<close> as a definition
    (\<open>setup_section\<close>, \<open>logo_paragraph\<close>, \<open>title_paragraph\<close> ... \<open>crop_table\<close>,
    \<open>add_state_row\<close>, \<open>crop_sections\<close>), \<open>add_footer\<close>, \<open>save\<close>, and
    \<open>build_document\<close>/\<open>create_report\<close> over a \<open>world\<close>. The world holds the
    server, the open handles, the files, the clock and stdout. Every exception is a
    \<open>report_error\<close>. \<open>report_spec\<close> states the promised document directly, and
    \<open>read_report\<close> reads a document's crop sections back as text.
  \<^item> \<open>Cli\<close>: the parser's declarations (lines 142--146) and CPython 3.12
    argparse's behaviour on them: each argument classified as \<open>_parse_optional\<close> does
    (\<open>classify\<close>, \<open>classify_all\<close>; \<open>--\<close> ends the options and is its own token
    \<open>TDashDash\<close>), consumed left to right (\<open>consume\<close>, \<open>store\<close> with the choices
    check, \<open>help_chain\<close> for single-dash flags attached to \<open>-h\<close> as
    \<open>consume_optional\<close> reads them), then the required check and the unrecognised
    arguments (\<open>parse_args\<close>). \<open>main\<close> composes \<open>parse_args\<close> with
    \<open>create_report\<close> on the world and ends in a \<open>main_outcome\<close> with an
    \<open>exit_status\<close>.
  \<^item> \<open>Spec2Isabelle\<close> (this theory): the specification's Wheat/Punjab fixture and the
    properties that span the loader and the renderer, and a witness for every property with
    a hypothesis.

  \<^bold>\<open>What is proved.\<close> The loader loses nothing: with distinct keys every row is
  found unchanged, and in general the table is the composite-key map in which the last row of
  a key wins (a refinement). The table is well formed. Under the query's contract its crops
  and states are strictly increasing. The connection and cursor are closed unless the query
  fails, and then they leak. The renderer is proved to write exactly \<open>report_spec\<close>
  (a refinement); each state's row is read from the composite-key map, with \<open>''''\<close>
  where no value is stored. The spec's round trip gives the row
  \<open>Punjab, 3.2, 0.4, 3.5, 0.3, 3.1, 0.5, 3.0, 2.8\<close>. Crop sections come in query
  order. A failing run writes no file, and a missing logo aborts before any output. The
  orientation, the one-inch margins and the footer are proved, and every table's nine
  grid columns share the width between the margins (one inch each on a landscape page). Tables never raise
  \<open>IndexError\<close>. The footer's date reads back, and \<open>str(Decimal)\<close> keeps the
  scale. The command line round-trips in its long (\<open>--opt=value\<close>) and short forms,
  with \<open>PORTRAIT\<close> as the default. Every non-empty prefix of a long option selects it,
  and a repeated option keeps its last value. An invalid \<open>--format\<close> or a missing required
  option is a usage error (status 2) before any effect, and \<open>-h\<close> exits 0 untouched
  exactly when the rest of the command line classifies. A
  completed run's pages are wider than high exactly under \<open>--format LANDSCAPE\<close>.
  Attached short values (\<open>-tT\<close>) parse, \<open>--=v\<close> is an ambiguity error, and any run
  that exits non-zero leaves the files as they were. The pivot loop is equivalent to a
  group-by reference definition.
  The outcome of \<open>create_report\<close> is characterised completely, in the order the code meets
  its failures: connection, query, logo, save. Loader and renderer compose end to end: with
  distinct keys, every row of a reported column appears in its crop's table, in its state's
  row and its column's cell. A numeric yield renders as a numeral. Every table operation the
  report uses keeps the table's grid. A NaN or infinite Decimal yield shows as its word. An
  empty query result gives a document of header blocks only. A completed \<open>main\<close> writes
  exactly \<open>report_spec\<close> under the parsed options (a refinement at the top level), and the
  written report reads back as each crop's name with its states' rows.

  \<^bold>\<open>Findings.\<close> A NULL yield renders as \<open>None\<close>, not as an empty cell.
  The query error path leaks the connection and the cursor. The literal \<open>Page \<close> sits
  inside the PAGE field and is replaced when the field updates. Among duplicate keys the
  winning row is not fixed by the query's order. The spec calls the orientation
  case-insensitive, but the argparse \<open>choices\<close> reject \<open>landscape\<close>, so the
  \<open>.upper()\<close> in \<open>create_report\<close> only serves direct callers. The spec's yields are
  numbers or null, but a \<open>numeric\<close> column also holds \<open>NaN\<close> and \<open>Infinity\<close>, which
  the cells show as those words.

  \<^bold>\<open>Not modelled.\<close> The SQL engine itself: the rows it returns are an input,
  constrained by \<open>query_result\<close>. Byte-wise (C collation) string order stands for the
  database's collation. Binary floats (\<open>real\<close> and \<open>double precision\<close> columns,
  whose \<open>repr\<close> is the shortest round-tripping decimal) and non-ASCII upper-casing are out
  of scope. The picture's height, computed from the image, and the OOXML
  serialisation of \<open>save\<close> are not modelled either. A run's text is kept as the
  string \<open>run.text\<close> reads back. The XML splits it: \<open>add_text\<close> (line 41) appends a
  second \<open>w:t\<close> element, and a tab, newline or carriage return becomes its own element.
  Only the serialisation could observe the split, except that a carriage return reads back as a
  newline. Of argparse, the help and usage texts are not modelled. The consumption follows
  \<open>consume_optional\<close> of CPython 3.12.0; later 3.12 releases reject an explicit
  \<open>=\<close> argument on a chained flag. No loop of the program can fail to
  terminate: every loop runs over a finite list, so every definition is total and
  structural, and no fuel is needed.

  \<^bold>\<open>Limits of the model.\<close> The forty properties cover every component. What remains
  outside is outside the program: the database engine, python-docx's XML writer and the
  image decoder. Their effect on the run is an input to the model (the rows, the file
  entries), which the properties quantify over.
\<close>

section \<open>The fixture of the specification\<close>

text \<open>
  One crop (Wheat), one state (Punjab), the eight values of the specification's round-trip
  scenario stored as \<open>numeric\<close> (psycopg2 gives \<open>Decimal\<close>s), a server that accepts
  \<open>DB_CONFIG\<close> and answers the join, a logo file and a writable output path.
\<close>

definition wheat_tables :: tables where
  "wheat_tables =
     \<lparr>t_crops = [\<lparr>crop_id = 1, crop_name = ''Wheat''\<rparr>],
      t_states = [\<lparr>state_id = 1, state_name = ''Punjab''\<rparr>],
      t_yields =
        [\<lparr>cy_crop_id = 1, cy_state_id = 1, cy_year = 2022, cy_method = ''MoA&FW'', cy_yield_value = PyDecimal False ''28'' (-1)\<rparr>,
         \<lparr>cy_crop_id = 1, cy_state_id = 1, cy_year = 2023, cy_method = ''MoA&FW'', cy_yield_value = PyDecimal False ''30'' (-1)\<rparr>,
         \<lparr>cy_crop_id = 1, cy_state_id = 1, cy_year = 2024, cy_method = ''ARIMA'', cy_yield_value = PyDecimal False ''32'' (-1)\<rparr>,
         \<lparr>cy_crop_id = 1, cy_state_id = 1, cy_year = 2024, cy_method = ''ARIMA_RMSE'', cy_yield_value = PyDecimal False ''4'' (-1)\<rparr>,
         \<lparr>cy_crop_id = 1, cy_state_id = 1, cy_year = 2024, cy_method = ''RF_RMSE'', cy_yield_value = PyDecimal False ''5'' (-1)\<rparr>,
         \<lparr>cy_crop_id = 1, cy_state_id = 1, cy_year = 2024, cy_method = ''Random Forest'', cy_yield_value = PyDecimal False ''31'' (-1)\<rparr>,
         \<lparr>cy_crop_id = 1, cy_state_id = 1, cy_year = 2024, cy_method = ''XGBoost'', cy_yield_value = PyDecimal False ''35'' (-1)\<rparr>,
         \<lparr>cy_crop_id = 1, cy_state_id = 1, cy_year = 2024, cy_method = ''XGBoost_RMSE'', cy_yield_value = PyDecimal False ''3'' (-1)\<rparr>]\<rparr>"

definition wheat_server :: db_server where
  "wheat_server =
     \<lparr>db_accepts = (\<lambda>cfg. cfg = DB_CONFIG), db_schema_ok = True, db_tables = wheat_tables,
      db_answer = sql_join wheat_tables\<rparr>"

definition wheat_world :: world where
  "wheat_world =
     \<lparr>w_db = wheat_server, w_handles = \<lparr>conns_open = 0, cursors_open = 0\<rparr>,
      w_files = [''logo.png'' \<mapsto> ImageFile], w_writable = (\<lambda>p. p = ''report.docx''),
      w_now = \<lparr>dt_year = 2025, dt_month = 3, dt_day = 7\<rparr>, w_stdout = []\<rparr>"

definition broken_server :: db_server where
  "broken_server = wheat_server\<lparr>db_schema_ok := False\<rparr>"

definition no_logo_world :: world where
  "no_logo_world = wheat_world\<lparr>w_files := Map.empty\<rparr>"

text \<open>A server that accepts the connection and the query and answers no rows.\<close>

definition empty_world :: world where
  "empty_world = wheat_world\<lparr>w_db := wheat_server\<lparr>db_answer := []\<rparr>\<rparr>"

text \<open>Two rows with the same key, and a NULL value.\<close>

definition duplicate_rows :: "row list" where
  "duplicate_rows = [(''Rice'', ''Bihar'', 2023, ''MoA&FW'', PyInt 1), (''Rice'', ''Bihar'', 2023, ''MoA&FW'', PyInt 2)]"

definition null_rows :: "row list" where
  "null_rows = [(''Rice'', ''Bihar'', 2023, ''MoA&FW'', PyNone)]"

definition no_handles :: db_handles where
  "no_handles = \<lparr>conns_open = 0, cursors_open = 0\<rparr>"

section \<open>Facts of the fixture\<close>

lemma wheat_answer: "db_answer wheat_server =
  [(''Wheat'', ''Punjab'', 2022, ''MoA&FW'', PyDecimal False ''28'' (-1)),
   (''Wheat'', ''Punjab'', 2023, ''MoA&FW'', PyDecimal False ''30'' (-1)),
   (''Wheat'', ''Punjab'', 2024, ''ARIMA'', PyDecimal False ''32'' (-1)),
   (''Wheat'', ''Punjab'', 2024, ''ARIMA_RMSE'', PyDecimal False ''4'' (-1)),
   (''Wheat'', ''Punjab'', 2024, ''RF_RMSE'', PyDecimal False ''5'' (-1)),
   (''Wheat'', ''Punjab'', 2024, ''Random Forest'', PyDecimal False ''31'' (-1)),
   (''Wheat'', ''Punjab'', 2024, ''XGBoost'', PyDecimal False ''35'' (-1)),
   (''Wheat'', ''Punjab'', 2024, ''XGBoost_RMSE'', PyDecimal False ''3'' (-1))]"
  by (simp add: wheat_server_def wheat_tables_def sql_join_def)

lemma wheat_fetch: "fetch_data wheat_server h = (Inr (pivot [] (db_answer wheat_server)), h)"
  by (simp add: fetch_data_def wheat_server_def Let_def)

lemma wheat_create_ok:
  "fst (create_report ''template.docx'' ''report.docx'' orientation ''logo.png'' wheat_world) = Inr ()"
  by (simp add: create_report_Inr wheat_world_def wheat_server_def)

lemma wheat_world_db [simp]: "w_db wheat_world = wheat_server"
  by (simp add: wheat_world_def)

lemma wheat_query_result: "query_result (db_tables wheat_server) (db_answer wheat_server)"
  by (simp add: wheat_server_def, code_simp)

section \<open>Properties across the loader and the renderer\<close>


text \<open>
  C5. Crop order: when the server answers the query as its \<open>ORDER BY\<close> asks, the crop
  sections of the written document are the join's crop names, each once, in increasing
  order (upper-cased for the heading).
\<close>

theorem report_crop_order:
  assumes "fst (create_report tp output_path orientation logo_path w) = Inr u"
    and "query_result (db_tables (w_db w)) (db_answer (w_db w))"
  shows "\<exists>d. w_files (snd (create_report tp output_path orientation logo_path w)) output_path =
               Some (DocxFile d) \<and>
             doc_headings d =
               map py_upper (sorted_list_of_set (set (map row_crop (sql_join (db_tables (w_db w))))))"
proof -
  let ?rows = "db_answer (w_db w)"
  from assms(2) have "sorted (map row_key ?rows)" and "set ?rows = set (sql_join (db_tables (w_db w)))"
    by (auto simp: query_result_def dest: mset_eq_setD)
  moreover from this(1) have "sorted (map row_crop ?rows)"
    by (rule sorted_map_mono) (auto elim!: row_key.elims)
  ultimately have "map fst (pivot [] ?rows) =
                     sorted_list_of_set (set (map row_crop (sql_join (db_tables (w_db w)))))"
    by (simp add: crops_pivot first_occ_sorted)
  then have "map (\<lambda>(c, st). py_upper c) (pivot [] ?rows) =
               map py_upper (sorted_list_of_set (set (map row_crop (sql_join (db_tables (w_db w))))))"
    by (simp add: map_case_prod_fst)
  then show ?thesis
    using create_report_files [OF assms(1)] by (simp add: doc_headings_report_spec)
qed


section \<open>Witnesses\<close>

text \<open>Each property with a hypothesis, applied where its hypotheses hold.\<close>

theorem create_report_writes_report_witness:
  "fst (create_report ''template.docx'' ''report.docx'' ''PORTRAIT'' ''logo.png'' wheat_world) = Inr () \<and>
   w_stdout (snd (create_report ''template.docx'' ''report.docx'' ''PORTRAIT'' ''logo.png'' wheat_world)) =
     [report_message ''report.docx'']"
  using create_report_writes_report [OF wheat_create_ok] wheat_create_ok
  by (simp add: wheat_world_def)

theorem fetch_data_no_loss_witness:
  "table_lookup (pivot [] (db_answer wheat_server)) (''Wheat'', ''Punjab'', 2024, ''ARIMA'') =
     Some (PyDecimal False ''32'' (-1))"
proof -
  have "distinct (map row_key (db_answer wheat_server))" by (simp add: wheat_answer)
  moreover have "(''Wheat'', ''Punjab'', 2024, ''ARIMA'', PyDecimal False ''32'' (-1)) \<in> set (db_answer wheat_server)"
    by (simp add: wheat_answer)
  ultimately show ?thesis
    using fetch_data_no_loss [OF wheat_fetch [of no_handles]] by fastforce
qed

theorem fetch_data_last_write_wins_witness:
  "table_lookup (pivot [] duplicate_rows) (''Rice'', ''Bihar'', 2023, ''MoA&FW'') = Some (PyInt 2)"
proof -
  let ?srv = "wheat_server\<lparr>db_answer := duplicate_rows\<rparr>"
  have "fetch_data ?srv no_handles = (Inr (pivot [] duplicate_rows), no_handles)"
    by (simp add: fetch_data_def wheat_server_def Let_def)
  from fetch_data_last_write_wins [OF this] show ?thesis
    by (simp add: duplicate_rows_def)
qed

theorem report_crop_order_witness:
  "\<exists>d. w_files (snd (create_report ''template.docx'' ''report.docx'' ''PORTRAIT'' ''logo.png'' wheat_world))
          ''report.docx'' = Some (DocxFile d) \<and> doc_headings d = [''WHEAT'']"
proof -
  have q: "query_result (db_tables (w_db wheat_world)) (db_answer (w_db wheat_world))"
    using wheat_query_result by (simp add: wheat_world_def)
  have "map py_upper (sorted_list_of_set (set (map row_crop (sql_join (db_tables (w_db wheat_world)))))) = [''WHEAT'']"
    by (simp add: wheat_world_def wheat_server_def wheat_tables_def sql_join_def, code_simp)
  then show ?thesis using report_crop_order [OF wheat_create_ok q] by simp
qed

theorem state_row_from_table_witness:
  "state_cells ''Punjab'' (the (map_of (the (map_of (pivot [] (db_answer wheat_server)) ''Wheat'')) ''Punjab'')) =
     [''Punjab'', ''3.2'', ''0.4'', ''3.5'', ''0.3'', ''3.1'', ''0.5'', ''3.0'', ''2.8'']"
proof -
  let ?data = "pivot [] (db_answer wheat_server)"
  let ?st = "the (map_of ?data ''Wheat'')"
  have c: "map_of ?data ''Wheat'' = Some ?st" by code_simp
  have s: "map_of ?st ''Punjab'' = Some (the (map_of ?st ''Punjab''))" by code_simp
  have "''Punjab'' # map (\<lambda>(y, m). case table_lookup ?data (''Wheat'', ''Punjab'', y, m) of
           None \<Rightarrow> '''' | Some v \<Rightarrow> py_str v) report_columns =
        [''Punjab'', ''3.2'', ''0.4'', ''3.5'', ''0.3'', ''3.1'', ''0.5'', ''3.0'', ''2.8'']"
    by code_simp
  with state_row_from_table [OF c s] show ?thesis by simp
qed

theorem null_yield_renders_None_witness:
  "state_cells ''Bihar'' (the (map_of (the (map_of (pivot [] null_rows) ''Rice'')) ''Bihar'')) ! 7 = ''None''"
proof -
  let ?data = "pivot [] null_rows"
  let ?st = "the (map_of ?data ''Rice'')"
  have c: "map_of ?data ''Rice'' = Some ?st" by code_simp
  have s: "map_of ?st ''Bihar'' = Some (the (map_of ?st ''Bihar''))" by code_simp
  have n: "table_lookup ?data (''Rice'', ''Bihar'', 2023, ''MoA&FW'') = Some PyNone" by code_simp
  from null_yield_renders_None [OF c s n] show ?thesis .
qed


theorem create_report_missing_logo_witness:
  "create_report ''template.docx'' ''report.docx'' ''PORTRAIT'' ''logo.png'' no_logo_world =
     (Inl (FileNotFound ''logo.png''), no_logo_world)"
  by (rule create_report_missing_logo)
     (simp_all add: no_logo_world_def wheat_world_def wheat_server_def)

theorem report_orientation_witness:
  "\<exists>d. w_files (snd (create_report ''template.docx'' ''report.docx'' ''landscape'' ''logo.png'' wheat_world))
          ''report.docx'' = Some (DocxFile d) \<and>
       list_all (\<lambda>s. sec_page_height s < sec_page_width s) (doc_sections d) \<and>
       list_all (\<lambda>t. tbl_grid t = replicate 9 Inches_1) (doc_tables d)"
proof -
  have "py_upper ''landscape'' = ''LANDSCAPE''" by code_simp
  with report_orientation [OF wheat_create_ok [of "''landscape''"]] show ?thesis
    by (auto simp: list_all_iff)
qed

theorem report_footer_witness:
  "\<exists>d. w_files (snd (create_report ''template.docx'' ''report.docx'' ''PORTRAIT'' ''logo.png'' wheat_world))
          ''report.docx'' = Some (DocxFile d) \<and>
       map sec_footer (doc_sections d) =
         [[\<lparr>p_align = Some CENTER,
            p_items = [PRun (new_run (copyright_text @ ''Date: 07-03-2025 | '')),
                       PFldSimple ''PAGE'' [new_run ''Page '']],
            p_bottom_border = None\<rparr>]]"
proof -
  have "strftime_dmy (w_now wheat_world) = ''07-03-2025''"
    by (simp add: wheat_world_def, code_simp)
  with report_footer [OF wheat_create_ok] show ?thesis by simp
qed

theorem fetch_data_query_error_leaks_witness:
  "fetch_data broken_server no_handles =
     (Inl ProgrammingError, \<lparr>conns_open = 1, cursors_open = 1\<rparr>)"
proof -
  have "db_accepts broken_server DB_CONFIG" and "\<not> db_schema_ok broken_server"
    by (simp_all add: broken_server_def wheat_server_def)
  from fetch_data_query_error_leaks [OF this] show ?thesis
    by (simp add: no_handles_def)
qed

theorem fetch_data_closes_handles_witness:
  "snd (fetch_data wheat_server no_handles) = no_handles"
proof -
  have "fst (fetch_data wheat_server no_handles) \<noteq> Inl ProgrammingError"
    by (simp add: wheat_fetch)
  then show ?thesis by (rule fetch_data_closes_handles)
qed

theorem fetch_data_table_wf_witness:
  "table_wf (pivot [] (db_answer wheat_server))"
  using fetch_data_table_wf [of wheat_server no_handles] by (simp add: wheat_fetch)

theorem fetch_data_sorted_witness:
  "sorted_wrt (<) (map fst (pivot [] (db_answer wheat_server))) \<and>
   sorted_wrt (<) (state_keys (pivot [] (db_answer wheat_server)) ''Wheat'')"
  using fetch_data_sorted [OF wheat_query_result, of no_handles] by (simp add: wheat_fetch)




theorem main_page_orientation_witness:
  "\<exists>d. w_files (snd (main [''-t'', ''template.docx'', ''-o'', ''report.docx'', ''-f'', ''LANDSCAPE'',
                                ''-l'', ''logo.png''] wheat_world)) ''report.docx'' = Some (DocxFile d) \<and>
       doc_sections d \<noteq> [] \<and> list_all (\<lambda>s. sec_page_height s < sec_page_width s) (doc_sections d)"
proof -
  let ?argv = "[''-t'', ''template.docx'', ''-o'', ''report.docx'', ''-f'', ''LANDSCAPE'', ''-l'', ''logo.png'']"
  have p: "parse_args ?argv = CliArgs \<lparr>a_template = ''template.docx'', a_output = ''report.docx'',
                                      a_format = ''LANDSCAPE'', a_logo = ''logo.png''\<rparr>"
    by code_simp
  obtain w2 where cr: "create_report ''template.docx'' ''report.docx'' ''LANDSCAPE'' ''logo.png'' wheat_world =
                         (Inr (), w2)"
    using wheat_create_ok [of "''LANDSCAPE''"] by (metis prod.collapse)
  have c: "fst (main ?argv wheat_world) = Completed"
    using p cr by (simp add: main_def)
  show ?thesis using main_page_orientation [OF p c] by simp
qed

theorem main_invalid_choice_witness:
  "''landscape'' \<notin> set format_choices \<and>
   main [''--template=in.docx'', ''--output=out.docx'', ''--format=landscape'', ''--logo=logo.png''] wheat_world =
     (UsageError (InvalidChoice ''landscape''), wheat_world)"
  using main_invalid_choice [of "''landscape''" "''in.docx''" "''out.docx''" "''logo.png''" wheat_world]
  by (simp add: format_choices_def)

theorem main_missing_logo_witness:
  "main [''-t'', ''in.docx'', ''-o'', ''out.docx''] wheat_world = (UsageError (RequiredMissing [OptLogo]), wheat_world)"
  using main_missing_logo [of "''in.docx''" "''out.docx''" wheat_world] by simp

theorem main_help_witness:
  "main [''-h'', ''--bogus''] wheat_world = (ShowedHelp, wheat_world) \<and>
   main [''-h'', ''--=x''] wheat_world \<noteq> (ShowedHelp, wheat_world)"
proof -
  have c1: "classify_all [''--bogus''] = Inr [TUnknown ''--bogus'']" by code_simp
  have c2: "classify_all [''--=x''] = Inl (Ambiguous ''--=x'')" by code_simp
  show ?thesis
    using main_help [of "[''--bogus'']" wheat_world] main_help [of "[''--=x'']" wheat_world] c1 c2 by auto
qed

theorem report_cell_of_row_witness:
  "\<exists>d. w_files (snd (create_report ''template.docx'' ''report.docx'' ''PORTRAIT'' ''logo.png'' wheat_world))
         ''report.docx'' = Some (DocxFile d) \<and>
       (\<exists>(h, t) \<in> set (zip (doc_headings d) (doc_tables d)). h = py_upper ''Wheat'' \<and>
          (\<exists>cells \<in> set (drop 2 (tbl_rows t)). cells ! 0 = ''Punjab'' \<and>
             cells ! Suc 0 = py_str (PyDecimal False ''32'' (-1))))"
proof -
  have dist: "distinct (map row_key (db_answer (w_db wheat_world)))"
    by (simp add: wheat_server_def wheat_tables_def sql_join_def)
  have mem: "(''Wheat'', ''Punjab'', 2024, ''ARIMA'', PyDecimal False ''32'' (-1)) \<in> set (db_answer (w_db wheat_world))"
    by (simp add: wheat_server_def wheat_tables_def sql_join_def)
  have col: "0 < length report_columns" "report_columns ! 0 = (2024, ''ARIMA'')"
    by (simp_all add: report_columns_def)
  show ?thesis
    using report_cell_of_row [OF wheat_create_ok dist mem col] .
qed




theorem special_yield_renders_word_witness:
  "cell_text [(2024, [(''ARIMA'', PyDecimalSpecial False (DNaN ''''))])] 2024 ''ARIMA'' = special_str False (DNaN '''') \<and>
   \<not> set (cell_text [(2024, [(''ARIMA'', PyDecimalSpecial False (DNaN ''''))])] 2024 ''ARIMA'') \<subseteq>
       dec_digits \<union> {CHR ''+'', CHR ''-'', CHR ''.'', CHR ''E''}"
  by (rule special_yield_renders_word [where ms = "[(''ARIMA'', PyDecimalSpecial False (DNaN ''''))]"]) simp_all

theorem report_empty_result_witness:
  "\<exists>d. w_files (snd (create_report ''template.docx'' ''report.docx'' ''PORTRAIT'' ''logo.png'' empty_world))
         ''report.docx'' = Some (DocxFile d) \<and> length (doc_body d) = 6 \<and> doc_tables d = [] \<and> doc_sections d \<noteq> []"
proof -
  have ok: "fst (create_report ''template.docx'' ''report.docx'' ''PORTRAIT'' ''logo.png'' empty_world) = Inr ()"
    by (simp add: create_report_Inr empty_world_def wheat_world_def wheat_server_def)
  have e: "db_answer (w_db empty_world) = []"
    by (simp add: empty_world_def wheat_world_def)
  show ?thesis using report_empty_result [OF ok e] .
qed

theorem main_writes_report_witness:
  "snd (main [''-t'', ''template.docx'', ''-o'', ''report.docx'', ''-f'', ''LANDSCAPE'', ''-l'', ''logo.png''] wheat_world) =
     wheat_world\<lparr>w_files := (w_files wheat_world)(''report.docx'' \<mapsto>
        DocxFile (report_spec (pivot [] (db_answer wheat_server)) ''LANDSCAPE'' ''logo.png'' (w_now wheat_world))),
      w_stdout := w_stdout wheat_world @ [report_message ''report.docx'']\<rparr>"
proof -
  let ?argv = "[''-t'', ''template.docx'', ''-o'', ''report.docx'', ''-f'', ''LANDSCAPE'', ''-l'', ''logo.png'']"
  have p: "parse_args ?argv = CliArgs \<lparr>a_template = ''template.docx'', a_output = ''report.docx'',
                                      a_format = ''LANDSCAPE'', a_logo = ''logo.png''\<rparr>"
    by code_simp
  obtain w2 where cr: "create_report ''template.docx'' ''report.docx'' ''LANDSCAPE'' ''logo.png'' wheat_world =
                         (Inr (), w2)"
    using wheat_create_ok [of "''LANDSCAPE''"] by (metis prod.collapse)
  have c: "fst (main ?argv wheat_world) = Completed"
    using p cr by (simp add: main_def)
  show ?thesis using main_writes_report [OF p c] by simp
qed

theorem report_reads_back_witness:
  "\<exists>d. w_files (snd (create_report ''template.docx'' ''report.docx'' ''PORTRAIT'' ''logo.png'' wheat_world))
         ''report.docx'' = Some (DocxFile d) \<and>
       read_report d = Some [(''WHEAT'', [[''Punjab'', ''3.2'', ''0.4'', ''3.5'', ''0.3'', ''3.1'', ''0.5'', ''3.0'', ''2.8'']])]"
proof -
  have e: "map (\<lambda>(c, st). (py_upper c, map (\<lambda>(s, ys). state_cells s ys) st)) (pivot [] (db_answer wheat_server)) =
             [(''WHEAT'', [[''Punjab'', ''3.2'', ''0.4'', ''3.5'', ''0.3'', ''3.1'', ''0.5'', ''3.0'', ''2.8'']])]"
    by code_simp
  show ?thesis using report_reads_back [OF wheat_create_ok] e by (simp del: pivot.simps)
qed

end
